theory Spec2Isabelle
  imports Complex_Main
begin

section \<open>JavaScript numbers\<close>

text \<open>
  A JavaScript number is a binary64 value: a real of the format, or one of the three
  special values of the language. The sign of zero is outside the model (a division by
  zero divides by +0).
\<close>

datatype jsnum = Fin real | PInf | NInf | NaN

subsection \<open>Rounding to binary64\<close>

text \<open>The nearest integer, the even one on a tie.\<close>

definition round_even :: "real \<Rightarrow> int" where
  "round_even x =
     (let n = \<lfloor>x\<rfloor>; d = x - of_int n
      in if d < 1 / 2 then n else if 1 / 2 < d then n + 1 else if even n then n else n + 1)"

text \<open>
  The numbers of the format with a magnitude in \<open>[2 powi (e + 52), 2 powi (e + 53))\<close>
  are the multiples of \<open>2 powi e\<close>, for \<open>e\<close> from -1074 to 970; below that range they are
  the multiples of \<open>2 powi (- 1074)\<close>. \<open>ulp_exponent a\<close> is the exponent \<open>e\<close> of the
  range of the magnitude \<open>a\<close>, found by going up from -1074; it is 971 for a magnitude of
  \<open>2 ^ 1024\<close> or more.
\<close>

primrec exponent_from :: "nat \<Rightarrow> int \<Rightarrow> real \<Rightarrow> int" where
  "exponent_from 0 e a = e"
| "exponent_from (Suc n) e a = (if a < 2 powi (e + 53) then e else exponent_from n (e + 1) a)"

definition ulp_exponent :: "real \<Rightarrow> int" where
  "ulp_exponent a = exponent_from 2045 (- 1074) a"

text \<open>The nearest multiple of the last place, the one with an even multiplier on a tie.\<close>

definition nearest64 :: "real \<Rightarrow> real" where
  "nearest64 x =
     of_int (round_even (x / 2 powi ulp_exponent \<bar>x\<bar>)) * 2 powi ulp_exponent \<bar>x\<bar>"

definition overflow_threshold :: real where
  "overflow_threshold = 2 ^ 1024"

text \<open>The result of an operation whose exact value is \<open>x\<close>: it overflows to an infinity.\<close>

definition binary64 :: "real \<Rightarrow> jsnum" where
  "binary64 x =
     (if overflow_threshold \<le> nearest64 x then PInf
      else if nearest64 x \<le> - overflow_threshold then NInf
      else Fin (nearest64 x))"

text \<open>
  The arithmetic is a parameter of the operations. \<open>Binary64\<close> is the arithmetic of the
  language: every result is rounded. \<open>Exact\<close> computes with the reals; it is the
  arithmetic in which the formulas of the specification are written.
\<close>

datatype arithmetic = Exact | Binary64

fun rounded :: "arithmetic \<Rightarrow> real \<Rightarrow> jsnum" where
  "rounded Exact x = Fin x"
| "rounded Binary64 x = binary64 x"

text \<open>A number that is its own rounding, or a special value.\<close>

definition representable :: "arithmetic \<Rightarrow> jsnum \<Rightarrow> bool" where
  "representable ar n = (case n of Fin y \<Rightarrow> rounded ar y = Fin y | _ \<Rightarrow> True)"

subsection \<open>Operations\<close>

definition inf_signed :: "real \<Rightarrow> jsnum" where
  "inf_signed x = (if x = 0 then NaN else if 0 < x then PInf else NInf)"

fun js_neg :: "jsnum \<Rightarrow> jsnum" where
  "js_neg (Fin x) = Fin (- x)"
| "js_neg PInf = NInf"
| "js_neg NInf = PInf"
| "js_neg NaN = NaN"

fun js_add :: "arithmetic \<Rightarrow> jsnum \<Rightarrow> jsnum \<Rightarrow> jsnum" where
  "js_add ar (Fin x) (Fin y) = rounded ar (x + y)"
| "js_add ar (Fin x) PInf = PInf"
| "js_add ar (Fin x) NInf = NInf"
| "js_add ar PInf (Fin y) = PInf"
| "js_add ar NInf (Fin y) = NInf"
| "js_add ar PInf PInf = PInf"
| "js_add ar NInf NInf = NInf"
| "js_add ar PInf NInf = NaN"
| "js_add ar NInf PInf = NaN"
| "js_add ar NaN b = NaN"
| "js_add ar a NaN = NaN"

fun js_mul :: "arithmetic \<Rightarrow> jsnum \<Rightarrow> jsnum \<Rightarrow> jsnum" where
  "js_mul ar (Fin x) (Fin y) = rounded ar (x * y)"
| "js_mul ar (Fin x) PInf = inf_signed x"
| "js_mul ar (Fin x) NInf = inf_signed (- x)"
| "js_mul ar PInf (Fin y) = inf_signed y"
| "js_mul ar NInf (Fin y) = inf_signed (- y)"
| "js_mul ar PInf PInf = PInf"
| "js_mul ar NInf NInf = PInf"
| "js_mul ar PInf NInf = NInf"
| "js_mul ar NInf PInf = NInf"
| "js_mul ar NaN b = NaN"
| "js_mul ar a NaN = NaN"

fun js_div :: "arithmetic \<Rightarrow> jsnum \<Rightarrow> jsnum \<Rightarrow> jsnum" where
  "js_div ar (Fin x) (Fin y) = (if y = 0 then inf_signed x else rounded ar (x / y))"
| "js_div ar (Fin x) PInf = Fin 0"
| "js_div ar (Fin x) NInf = Fin 0"
| "js_div ar PInf (Fin y) = (if 0 \<le> y then PInf else NInf)"
| "js_div ar NInf (Fin y) = (if 0 \<le> y then NInf else PInf)"
| "js_div ar PInf PInf = NaN"
| "js_div ar NInf NInf = NaN"
| "js_div ar PInf NInf = NaN"
| "js_div ar NInf PInf = NaN"
| "js_div ar NaN b = NaN"
| "js_div ar a NaN = NaN"

text \<open>\<^verbatim>\<open>a > b\<close> on numbers: false as soon as one side is NaN.\<close>

fun js_gt :: "jsnum \<Rightarrow> jsnum \<Rightarrow> bool" where
  "js_gt (Fin x) (Fin y) = (y < x)"
| "js_gt PInf (Fin y) = True"
| "js_gt PInf NInf = True"
| "js_gt (Fin x) NInf = True"
| "js_gt a b = False"

text \<open>\<^verbatim>\<open>Math.ceil\<close>; the ceiling of a number of the format is in the format.\<close>

fun js_ceil :: "jsnum \<Rightarrow> jsnum" where
  "js_ceil (Fin x) = Fin (of_int \<lceil>x\<rceil>)"
| "js_ceil a = a"

text \<open>Truthiness of a number: every number but 0 and NaN.\<close>

fun num_truthy :: "jsnum \<Rightarrow> bool" where
  "num_truthy (Fin x) = (x \<noteq> 0)"
| "num_truthy NaN = False"
| "num_truthy a = True"

text \<open>\<^verbatim>\<open>n || d\<close> for a number \<open>n\<close>.\<close>

definition num_or :: "jsnum \<Rightarrow> jsnum \<Rightarrow> jsnum" where
  "num_or n d = (if num_truthy n then n else d)"

fun is_finite :: "jsnum \<Rightarrow> bool" where
  "is_finite (Fin x) = True"
| "is_finite a = False"

text \<open>
  \<^verbatim>\<open>parseFloat(x.toFixed(2))\<close>. \<^verbatim>\<open>toFixed\<close> prints the special values by name, a
  magnitude of at least \<open>10 ^ 21\<close> in full, and otherwise the integer \<open>n\<close> for which
  \<open>n / 100\<close> is nearest to the magnitude of \<open>x\<close> itself, the larger one on a tie:
  \<open>round2 x\<close> is the number printed. \<^verbatim>\<open>parseFloat\<close> reads it back, which rounds it.
\<close>

definition round2 :: "real \<Rightarrow> real" where
  "round2 x =
     (if 10 ^ 21 \<le> \<bar>x\<bar> then x
      else if x < 0 then - (of_int \<lfloor>- x * 100 + 1 / 2\<rfloor> / 100)
      else of_int \<lfloor>x * 100 + 1 / 2\<rfloor> / 100)"

fun toFixed2 :: "arithmetic \<Rightarrow> jsnum \<Rightarrow> jsnum" where
  "toFixed2 ar (Fin x) = rounded ar (round2 x)"
| "toFixed2 ar a = a"

section \<open>Strings and their conversion to numbers\<close>

text \<open>
  A string is a list of 8-bit characters, the code units U+0000 to U+00FF. White space is
  the language's white space within that range: tab, line feed, vertical tab, form feed,
  carriage return, space and the no-break space. The letters with a lower case within
  that range are A to Z and U+00C0 to U+00DE without the multiplication sign U+00D7.
\<close>

definition is_ws :: "char \<Rightarrow> bool" where
  "is_ws c = ((of_char c :: nat) \<in> {9, 10, 11, 12, 13, 32, 160})"

definition trim :: "string \<Rightarrow> string" where
  "trim s = rev (dropWhile is_ws (rev (dropWhile is_ws s)))"

definition is_upper :: "char \<Rightarrow> bool" where
  "is_upper c =
     ((65 \<le> (of_char c :: nat) \<and> (of_char c :: nat) \<le> 90)
      \<or> (192 \<le> (of_char c :: nat) \<and> (of_char c :: nat) \<le> 222 \<and> (of_char c :: nat) \<noteq> 215))"

definition toLowerCase :: "string \<Rightarrow> string" where
  "toLowerCase s = map (\<lambda>c. if is_upper c then char_of ((of_char c :: nat) + 32) else c) s"

fun startsWith :: "string \<Rightarrow> string \<Rightarrow> bool" where
  "startsWith s [] = True"
| "startsWith [] (p # ps) = False"
| "startsWith (c # cs) (p # ps) = (c = p \<and> startsWith cs ps)"

fun includes_str :: "string \<Rightarrow> string \<Rightarrow> bool" where
  "includes_str [] sub = (sub = [])"
| "includes_str (c # cs) sub = (startsWith (c # cs) sub \<or> includes_str cs sub)"

definition is_digit :: "char \<Rightarrow> bool" where
  "is_digit c = (48 \<le> (of_char c :: nat) \<and> (of_char c :: nat) \<le> 57)"

definition digits_val :: "string \<Rightarrow> nat" where
  "digits_val ds = foldl (\<lambda>a c. 10 * a + ((of_char c :: nat) - 48)) 0 ds"

definition pow10 :: "int \<Rightarrow> real" where
  "pow10 e = (if 0 \<le> e then 10 ^ nat e else 1 / 10 ^ nat (- e))"

text \<open>
  The optional exponent part of a decimal literal: \<^verbatim>\<open>e\<close> or \<^verbatim>\<open>E\<close>, an optional sign
  and at least one digit. Without a complete exponent part nothing is consumed.
\<close>

definition parse_exponent :: "string \<Rightarrow> int \<times> string" where
  "parse_exponent r =
     (case r of
        [] \<Rightarrow> (0, r)
      | c # r1 \<Rightarrow>
          if c = CHR ''e'' \<or> c = CHR ''E'' then
            (let neg = startsWith r1 ''-'';
                 r2 = (if startsWith r1 ''-'' \<or> startsWith r1 ''+'' then tl r1 else r1);
                 ds = takeWhile is_digit r2
             in if ds = [] then (0, r)
                else ((if neg then - int (digits_val ds) else int (digits_val ds)),
                      dropWhile is_digit r2))
          else (0, r))"

text \<open>
  The longest prefix that is an unsigned decimal literal (\<^verbatim>\<open>Infinity\<close>, digits with an
  optional fraction, or a fraction alone, each with an optional exponent), with the
  rounding of its value and the rest of the string.
\<close>

definition parse_unsigned :: "arithmetic \<Rightarrow> string \<Rightarrow> (jsnum \<times> string) option" where
  "parse_unsigned ar s =
     (if startsWith s ''Infinity'' then Some (PInf, drop 8 s)
      else
        (let ip = takeWhile is_digit s; r1 = dropWhile is_digit s
         in if startsWith r1 ''.'' then
              (let fp = takeWhile is_digit (tl r1); r3 = dropWhile is_digit (tl r1)
               in if ip = [] \<and> fp = [] then None
                  else Some (rounded ar ((real (digits_val ip) + real (digits_val fp) / 10 ^ length fp)
                                   * pow10 (fst (parse_exponent r3))),
                             snd (parse_exponent r3)))
            else if ip = [] then None
            else Some (rounded ar (real (digits_val ip) * pow10 (fst (parse_exponent r1))),
                       snd (parse_exponent r1))))"

definition parse_decimal :: "arithmetic \<Rightarrow> string \<Rightarrow> (jsnum \<times> string) option" where
  "parse_decimal ar s =
     (if startsWith s ''-'' then map_option (\<lambda>(v, r). (js_neg v, r)) (parse_unsigned ar (tl s))
      else if startsWith s ''+'' then parse_unsigned ar (tl s)
      else parse_unsigned ar s)"

text \<open>\<^verbatim>\<open>parseFloat\<close> skips leading white space and reads the longest decimal prefix.\<close>

definition parseFloat :: "arithmetic \<Rightarrow> string \<Rightarrow> jsnum" where
  "parseFloat ar s =
     (case parse_decimal ar (dropWhile is_ws s) of None \<Rightarrow> NaN | Some (v, r) \<Rightarrow> v)"

text \<open>Digits of the non-decimal integer literals \<^verbatim>\<open>0x\<close>, \<^verbatim>\<open>0o\<close> and \<^verbatim>\<open>0b\<close>.\<close>

definition radix_digit :: "char \<Rightarrow> nat" where
  "radix_digit c =
     (let n = (of_char c :: nat)
      in if 48 \<le> n \<and> n \<le> 57 then n - 48
         else if 97 \<le> n \<and> n \<le> 102 then n - 87
         else if 65 \<le> n \<and> n \<le> 70 then n - 55
         else 16)"

definition radix_literal :: "arithmetic \<Rightarrow> nat \<Rightarrow> string \<Rightarrow> jsnum" where
  "radix_literal ar b ds =
     (if ds \<noteq> [] \<and> list_all (\<lambda>c. radix_digit c < b) ds
      then rounded ar (real (foldl (\<lambda>a c. b * a + radix_digit c) 0 ds))
      else NaN)"

text \<open>
  The conversion of a string by \<^verbatim>\<open>Number\<close>: white space is trimmed on both sides, the
  empty string is 0, and the whole of what remains must be one numeric literal.
\<close>

definition stringToNumber :: "arithmetic \<Rightarrow> string \<Rightarrow> jsnum" where
  "stringToNumber ar s =
     (let t = trim s
      in if t = [] then Fin 0
         else if startsWith t ''0x'' \<or> startsWith t ''0X'' then radix_literal ar 16 (drop 2 t)
         else if startsWith t ''0o'' \<or> startsWith t ''0O'' then radix_literal ar 8 (drop 2 t)
         else if startsWith t ''0b'' \<or> startsWith t ''0B'' then radix_literal ar 2 (drop 2 t)
         else (case parse_decimal ar t of
                 Some (v, []) \<Rightarrow> v
               | _ \<Rightarrow> NaN))"

section \<open>JavaScript values\<close>

text \<open>
  The values a field of a parsed document can hold: the primitives, and \<open>JObject\<close> for a
  plain object, which converts to NaN. A missing property reads as \<open>JUndefined\<close>.
\<close>

datatype jsval = JNum jsnum | JStr string | JBool bool | JNull | JUndefined | JObject

text \<open>\<^verbatim>\<open>Number(v)\<close>.\<close>

fun toNumber :: "arithmetic \<Rightarrow> jsval \<Rightarrow> jsnum" where
  "toNumber ar (JNum n) = n"
| "toNumber ar (JStr s) = stringToNumber ar s"
| "toNumber ar (JBool b) = (if b then Fin 1 else Fin 0)"
| "toNumber ar JNull = Fin 0"
| "toNumber ar JUndefined = NaN"
| "toNumber ar JObject = NaN"

fun truthy :: "jsval \<Rightarrow> bool" where
  "truthy (JNum n) = num_truthy n"
| "truthy (JStr s) = (s \<noteq> [])"
| "truthy (JBool b) = b"
| "truthy JNull = False"
| "truthy JUndefined = False"
| "truthy JObject = True"

text \<open>\<^verbatim>\<open>v ?? d\<close>.\<close>

fun nullish_or :: "jsval \<Rightarrow> jsval \<Rightarrow> jsval" where
  "nullish_or JNull d = d"
| "nullish_or JUndefined d = d"
| "nullish_or v d = v"

text \<open>\<^verbatim>\<open>Number(v) || 0\<close>, the coercion used on every numeric input of the totals.\<close>

definition number_or_zero :: "arithmetic \<Rightarrow> jsval \<Rightarrow> jsnum" where
  "number_or_zero ar v = num_or (toNumber ar v) (Fin 0)"

datatype error = TypeError

definition bind_err :: "error + 'a \<Rightarrow> ('a \<Rightarrow> error + 'b) \<Rightarrow> error + 'b" where
  "bind_err m f = (case m of Inl e \<Rightarrow> Inl e | Inr v \<Rightarrow> f v)"

text \<open>
  A value that may or may not be an array. An element of an array is an object (\<open>Some\<close>)
  or \<^verbatim>\<open>null\<close>/\<^verbatim>\<open>undefined\<close> (\<open>None\<close>), on which a property read throws. A primitive
  element reads every property as \<^verbatim>\<open>undefined\<close>, as an object without fields does.
\<close>

datatype 'a jsarray = Arr "'a option list" | NotArr jsval

text \<open>\<^verbatim>\<open>Array.isArray(v) ? v : []\<close>.\<close>

fun safe_array :: "'a jsarray \<Rightarrow> 'a option list" where
  "safe_array (Arr xs) = xs"
| "safe_array (NotArr v) = []"

text \<open>\<^verbatim>\<open>xs.reduce((acc, x) => f(acc, x), init)\<close> with a callback that reads properties of \<open>x\<close>.\<close>

fun reduce :: "(jsnum \<Rightarrow> 'a \<Rightarrow> jsnum) \<Rightarrow> 'a option list \<Rightarrow> jsnum \<Rightarrow> error + jsnum" where
  "reduce f [] acc = Inr acc"
| "reduce f (None # xs) acc = Inl TypeError"
| "reduce f (Some x # xs) acc = reduce f xs (f acc x)"

section \<open>The data model (types.ts)\<close>

record tile =
  t_category :: jsval
  t_group :: jsval
  t_size :: jsval
  t_tileType :: jsval
  t_sqm :: jsval
  t_cartons :: jsval
  t_unitPrice :: jsval
  t_addWastage :: jsval

record material =
  m_item :: jsval
  m_quantity :: jsval
  m_unit :: jsval
  m_unitPrice :: jsval

record adjustment =
  a_description :: jsval
  a_amount :: jsval

text \<open>
  A quotation or an invoice as \<^verbatim>\<open>calculateTotals\<close> reads it. The fields tested with
  \<^verbatim>\<open>in\<close> are optional: \<open>None\<close> is a document without the key.
\<close>

record document =
  d_tiles :: "tile jsarray"
  d_materials :: "material jsarray"
  d_workmanshipRate :: jsval
  d_maintenance :: jsval
  d_profitPercentage :: jsval
  d_showMaterials :: jsval
  d_showAdjustments :: jsval
  d_showTax :: "jsval option"
  d_showMaintenance :: "jsval option"
  d_showWorkmanship :: "jsval option"
  d_adjustments :: "adjustment jsarray option"
  d_depositPercentage :: "jsval option"

record settings =
  s_taxPercentage :: jsval
  s_showMaintenance :: jsval
  s_showTax :: jsval
  s_showMaterialsDefault :: jsval
  s_showAdjustmentsDefault :: jsval
  s_wastageFactor :: jsnum
  s_tilePricesBySize :: "(string \<times> jsnum) list"
  s_wallTileM2PerCarton :: jsnum
  s_floorTileM2PerCarton :: jsnum
  s_sittingRoomTileM2PerCarton :: jsnum
  s_roomTileM2PerCarton :: jsnum
  s_externalWallTileM2PerCarton :: jsnum
  s_stepTileM2PerCarton :: jsnum
  s_toiletWallTileM2PerCarton :: jsnum
  s_toiletFloorTileM2PerCarton :: jsnum
  s_kitchenWallTileM2PerCarton :: jsnum
  s_kitchenFloorTileM2PerCarton :: jsnum

record summary =
  totalSqm :: jsnum
  totalTileCost :: jsnum
  totalMaterialCost :: jsnum
  workmanshipCost :: jsnum
  workmanshipAndMaintenance :: jsnum
  profitAmount :: jsnum
  subtotal :: jsnum
  totalAdjustments :: jsnum
  taxAmount :: jsnum
  grandTotal :: jsnum
  depositAmount :: jsnum

section \<open>calculateTotals (services/calculationService.ts)\<close>

definition tile_sqm_step :: "arithmetic \<Rightarrow> jsnum \<Rightarrow> tile \<Rightarrow> jsnum" where
  "tile_sqm_step ar acc tile = js_add ar acc (number_or_zero ar (t_sqm tile))"

definition tile_cost_step :: "arithmetic \<Rightarrow> jsnum \<Rightarrow> tile \<Rightarrow> jsnum" where
  "tile_cost_step ar acc tile =
     js_add ar acc (js_mul ar (number_or_zero ar (t_cartons tile)) (number_or_zero ar (t_unitPrice tile)))"

definition material_cost_step :: "arithmetic \<Rightarrow> jsnum \<Rightarrow> material \<Rightarrow> jsnum" where
  "material_cost_step ar acc mat =
     js_add ar acc (js_mul ar (number_or_zero ar (m_quantity mat)) (number_or_zero ar (m_unitPrice mat)))"

definition adjustment_step :: "arithmetic \<Rightarrow> jsnum \<Rightarrow> adjustment \<Rightarrow> jsnum" where
  "adjustment_step ar acc adj = js_add ar acc (number_or_zero ar (a_amount adj))"

text \<open>The right-hand sides of the constants of \<^verbatim>\<open>calculateTotals\<close>, one per source line.\<close>

definition workmanship_cost :: "arithmetic \<Rightarrow> jsval \<Rightarrow> jsnum \<Rightarrow> jsval \<Rightarrow> jsnum" where
  "workmanship_cost ar showWorkmanship sqmTotal rate =
     (if truthy showWorkmanship then js_mul ar sqmTotal (number_or_zero ar rate) else Fin 0)"

definition maintenance_term :: "arithmetic \<Rightarrow> jsval \<Rightarrow> jsval \<Rightarrow> jsnum" where
  "maintenance_term ar showMaintenance maintenance =
     (if truthy showMaintenance then number_or_zero ar maintenance else Fin 0)"

definition profit_amount :: "arithmetic \<Rightarrow> jsval \<Rightarrow> jsnum \<Rightarrow> jsnum" where
  "profit_amount ar profitPercentage preProfitTotal =
     (if truthy profitPercentage
      then js_mul ar preProfitTotal (js_div ar (number_or_zero ar profitPercentage) (Fin 100))
      else Fin 0)"

text \<open>The materials are summed only when the section is shown.\<close>

definition materials_total :: "arithmetic \<Rightarrow> jsval \<Rightarrow> material option list \<Rightarrow> error + jsnum" where
  "materials_total ar showMaterials safeMaterials =
     (if truthy showMaterials then reduce (material_cost_step ar) safeMaterials (Fin 0)
      else Inr (Fin 0))"

text \<open>
  The adjustments are summed when the section is shown, the document has the key and its
  value is an array; otherwise \<^verbatim>\<open>totalAdjustments\<close> keeps its initial 0.
\<close>

definition adjustments_total :: "arithmetic \<Rightarrow> jsval \<Rightarrow> adjustment jsarray option \<Rightarrow> error + jsnum" where
  "adjustments_total ar showAdjustments adjs =
     (if truthy showAdjustments then
        (case adjs of
           Some (Arr xs) \<Rightarrow> reduce (adjustment_step ar) xs (Fin 0)
         | _ \<Rightarrow> Inr (Fin 0))
      else Inr (Fin 0))"

definition tax_amount :: "arithmetic \<Rightarrow> jsval \<Rightarrow> jsnum \<Rightarrow> jsval \<Rightarrow> jsnum" where
  "tax_amount ar showTax postAdjustmentSubtotal taxPercentage =
     (if truthy showTax
      then js_mul ar postAdjustmentSubtotal (js_div ar (number_or_zero ar taxPercentage) (Fin 100))
      else Fin 0)"

text \<open>\<^verbatim>\<open>depositAmount\<close> keeps its initial 0 unless the key is present and truthy.\<close>

definition deposit_amount :: "arithmetic \<Rightarrow> jsval option \<Rightarrow> jsnum \<Rightarrow> jsnum" where
  "deposit_amount ar dp amount =
     (case dp of
        None \<Rightarrow> Fin 0
      | Some p \<Rightarrow> if truthy p then js_mul ar amount (js_div ar (number_or_zero ar p) (Fin 100))
                  else Fin 0)"

text \<open>The flags: the document's own property if it has the key, else the fallback.\<close>

definition flag_or :: "jsval option \<Rightarrow> jsval \<Rightarrow> jsval" where
  "flag_or own fallback = (case own of Some v \<Rightarrow> v | None \<Rightarrow> fallback)"

definition calculateTotals :: "arithmetic \<Rightarrow> document \<Rightarrow> settings \<Rightarrow> error + summary" where
  "calculateTotals ar data settings =
     (let showTax = flag_or (d_showTax data) (s_showTax settings);
          showMaintenance = flag_or (d_showMaintenance data) (s_showMaintenance settings);
          showWorkmanship = flag_or (d_showWorkmanship data) (JBool True);
          taxPercentage = s_taxPercentage settings;
          showMaterials = nullish_or (d_showMaterials data) (JBool True);
          showAdjustments = nullish_or (d_showAdjustments data) (JBool True);
          safeTiles = safe_array (d_tiles data);
          safeMaterials = safe_array (d_materials data)
      in
      bind_err (reduce (tile_sqm_step ar) safeTiles (Fin 0)) (\<lambda>totalSqm.
      bind_err (reduce (tile_cost_step ar) safeTiles (Fin 0)) (\<lambda>totalTileCost.
      bind_err (materials_total ar showMaterials safeMaterials) (\<lambda>totalMaterialCost.
      let workmanshipCost = workmanship_cost ar showWorkmanship totalSqm (d_workmanshipRate data);
          workmanshipAndMaintenance =
            js_add ar workmanshipCost (maintenance_term ar showMaintenance (d_maintenance data));
          preProfitTotal =
            js_add ar (js_add ar totalTileCost totalMaterialCost) workmanshipAndMaintenance;
          profitAmount = profit_amount ar (d_profitPercentage data) preProfitTotal;
          subtotal = js_add ar preProfitTotal profitAmount
      in
      bind_err (adjustments_total ar showAdjustments (d_adjustments data)) (\<lambda>totalAdjustments.
      let postAdjustmentSubtotal = js_add ar subtotal totalAdjustments;
          taxAmount = tax_amount ar showTax postAdjustmentSubtotal taxPercentage;
          grandTotal = js_add ar postAdjustmentSubtotal taxAmount;
          depositAmount = deposit_amount ar (d_depositPercentage data) grandTotal
      in
      Inr \<lparr> totalSqm = totalSqm,
            totalTileCost = totalTileCost,
            totalMaterialCost = totalMaterialCost,
            workmanshipCost = workmanshipCost,
            workmanshipAndMaintenance = workmanshipAndMaintenance,
            profitAmount = profitAmount,
            subtotal = subtotal,
            totalAdjustments = totalAdjustments,
            taxAmount = taxAmount,
            grandTotal = grandTotal,
            depositAmount = depositAmount \<rparr>)))))"

text \<open>
  The summary that \<^verbatim>\<open>calculateTotals\<close> returns once its four sums have been computed
  without an exception.
\<close>

definition summary_of_sums ::
  "arithmetic \<Rightarrow> document \<Rightarrow> settings \<Rightarrow> jsnum \<Rightarrow> jsnum \<Rightarrow> jsnum \<Rightarrow> jsnum \<Rightarrow> summary" where
  "summary_of_sums ar data settings sqmSum tileSum materialSum adjustmentSum =
     (let workmanshipCost =
            workmanship_cost ar (flag_or (d_showWorkmanship data) (JBool True)) sqmSum
              (d_workmanshipRate data);
          workmanshipAndMaintenance =
            js_add ar workmanshipCost
              (maintenance_term ar (flag_or (d_showMaintenance data) (s_showMaintenance settings))
                 (d_maintenance data));
          preProfitTotal = js_add ar (js_add ar tileSum materialSum) workmanshipAndMaintenance;
          profitAmount = profit_amount ar (d_profitPercentage data) preProfitTotal;
          subtotal = js_add ar preProfitTotal profitAmount;
          postAdjustmentSubtotal = js_add ar subtotal adjustmentSum;
          taxAmount = tax_amount ar (flag_or (d_showTax data) (s_showTax settings))
                        postAdjustmentSubtotal (s_taxPercentage settings);
          grandTotal = js_add ar postAdjustmentSubtotal taxAmount
      in \<lparr> totalSqm = sqmSum,
           totalTileCost = tileSum,
           totalMaterialCost = materialSum,
           workmanshipCost = workmanshipCost,
           workmanshipAndMaintenance = workmanshipAndMaintenance,
           profitAmount = profitAmount,
           subtotal = subtotal,
           totalAdjustments = adjustmentSum,
           taxAmount = taxAmount,
           grandTotal = grandTotal,
           depositAmount = deposit_amount ar (d_depositPercentage data) grandTotal \<rparr>)"

section \<open>The tile editor (components/EditTilesModal.tsx)\<close>

text \<open>
  \<^verbatim>\<open>(category || '')\<close> followed by \<^verbatim>\<open>.toLowerCase()\<close>: a falsy category reads as the
  empty string, a string as itself, and any other truthy value has no such method.
\<close>

definition category_string :: "jsval \<Rightarrow> error + string" where
  "category_string category =
     (if truthy category
      then (case category of JStr s \<Rightarrow> Inr s | _ \<Rightarrow> Inl TypeError)
      else Inr [])"

definition getCoverageRate :: "settings \<Rightarrow> jsval \<Rightarrow> error + jsnum" where
  "getCoverageRate settings category =
     bind_err (category_string category) (\<lambda>s.
       let cat = trim (toLowerCase s) in
       Inr (if cat = ''sr'' \<or> cat = ''lr'' \<or> includes_str cat ''sitting''
               \<or> includes_str cat ''living'' \<or> includes_str cat ''parlour''
               \<or> includes_str cat ''dining''
            then s_sittingRoomTileM2PerCarton settings
            else if cat = ''br'' \<or> cat = ''mbr'' \<or> includes_str cat ''bedroom''
               \<or> includes_str cat ''room'' \<or> includes_str cat ''guest''
               \<or> includes_str cat ''store''
            then s_roomTileM2PerCarton settings
            else if cat = ''tw'' \<or> (includes_str cat ''toilet'' \<and> includes_str cat ''wall'')
               \<or> (includes_str cat ''bathroom'' \<and> includes_str cat ''wall'')
            then s_toiletWallTileM2PerCarton settings
            else if cat = ''tf'' \<or> (includes_str cat ''toilet'' \<and> includes_str cat ''floor'')
               \<or> (includes_str cat ''bathroom'' \<and> includes_str cat ''floor'')
            then s_toiletFloorTileM2PerCarton settings
            else if cat = ''kw'' \<or> (includes_str cat ''kitchen'' \<and> includes_str cat ''wall'')
            then s_kitchenWallTileM2PerCarton settings
            else if cat = ''kf'' \<or> (includes_str cat ''kitchen'' \<and> includes_str cat ''floor'')
            then s_kitchenFloorTileM2PerCarton settings
            else if cat = ''ext'' \<or> includes_str cat ''external''
               \<or> includes_str cat ''outside'' \<or> includes_str cat ''facade''
            then s_externalWallTileM2PerCarton settings
            else if cat = ''step'' \<or> includes_str cat ''step'' \<or> includes_str cat ''stair''
            then s_stepTileM2PerCarton settings
            else if includes_str cat ''wall''
            then s_wallTileM2PerCarton settings
            else s_floorTileM2PerCarton settings))"

datatype field =
  Category | Group | Size | TileType | Sqm | Cartons | UnitPrice | AddWastage

text \<open>\<^verbatim>\<open>(tile as any)[field] = value\<close>.\<close>

fun set_field :: "field \<Rightarrow> jsval \<Rightarrow> tile \<Rightarrow> tile" where
  "set_field Category v t = t\<lparr>t_category := v\<rparr>"
| "set_field Group v t = t\<lparr>t_group := v\<rparr>"
| "set_field Size v t = t\<lparr>t_size := v\<rparr>"
| "set_field TileType v t = t\<lparr>t_tileType := v\<rparr>"
| "set_field Sqm v t = t\<lparr>t_sqm := v\<rparr>"
| "set_field Cartons v t = t\<lparr>t_cartons := v\<rparr>"
| "set_field UnitPrice v t = t\<lparr>t_unitPrice := v\<rparr>"
| "set_field AddWastage v t = t\<lparr>t_addWastage := v\<rparr>"

text \<open>
  \<^verbatim>\<open>typeof v === 'string' ? parseFloat(v) : v\<close>, read as a number: every later use of
  the result (\<^verbatim>\<open>isNaN\<close>, \<^verbatim>\<open>> 0\<close>, \<^verbatim>\<open>*\<close>, \<^verbatim>\<open>/\<close>) converts it with \<^verbatim>\<open>Number\<close>.
\<close>

definition num_of_input :: "arithmetic \<Rightarrow> jsval \<Rightarrow> jsnum" where
  "num_of_input ar v = (case v of JStr s \<Rightarrow> parseFloat ar s | _ \<Rightarrow> toNumber ar v)"

text \<open>\<^verbatim>\<open>!isNaN(n) && n > 0\<close>.\<close>

definition positive_number :: "jsnum \<Rightarrow> bool" where
  "positive_number n = (n \<noteq> NaN \<and> js_gt n (Fin 0))"

text \<open>The object spread of a hole or of \<^verbatim>\<open>undefined\<close>: an object without fields.\<close>

definition empty_tile :: tile where
  "empty_tile = \<lparr> t_category = JUndefined, t_group = JUndefined, t_size = JUndefined,
                  t_tileType = JUndefined, t_sqm = JUndefined, t_cartons = JUndefined,
                  t_unitPrice = JUndefined, t_addWastage = JUndefined \<rparr>"

text \<open>The body of \<^verbatim>\<open>handleTileChange\<close> on the copy \<open>tile0\<close> of the edited entry.\<close>

definition handleTileChange_body :: "arithmetic \<Rightarrow> settings \<Rightarrow> tile \<Rightarrow> field \<Rightarrow> jsval \<Rightarrow> error + tile" where
  "handleTileChange_body ar settings tile0 field value =
     bind_err (getCoverageRate settings (if field = Category then value else t_category tile0))
       (\<lambda>currentRate.
        let wastageFactor = s_wastageFactor settings;
            tile = (if field \<noteq> AddWastage then set_field field value tile0 else tile0)
        in Inr
          (if field = AddWastage then
             (let tile1 = tile\<lparr>t_addWastage := value\<rparr>;
                  numSqm = num_of_input ar (t_sqm tile1)
              in if positive_number numSqm then
                   (let adjustedSqm = (if truthy value then js_mul ar numSqm wastageFactor
                                       else js_div ar numSqm wastageFactor);
                        newSqm = toFixed2 ar adjustedSqm
                    in tile1\<lparr>t_sqm := JNum newSqm,
                              t_cartons := JNum (js_ceil (js_div ar newSqm currentRate))\<rparr>)
                 else tile1)
           else if field = Sqm \<or> field = Category then
             (let numSqm = num_of_input ar (t_sqm tile)
              in if positive_number numSqm
                 then tile\<lparr>t_cartons := JNum (js_ceil (js_div ar numSqm currentRate))\<rparr>
                 else if field = Sqm \<and> value = JStr [] then tile\<lparr>t_cartons := JNum (Fin 0)\<rparr>
                 else tile)
           else if field = Cartons then
             (let numCartons = num_of_input ar value
              in if positive_number numCartons
                 then tile\<lparr>t_sqm := JNum (toFixed2 ar (js_mul ar numCartons currentRate))\<rparr>
                 else if value = JStr [] then tile\<lparr>t_sqm := JNum (Fin 0)\<rparr>
                 else tile)
           else tile))"

text \<open>
  The editor's state is the array of tiles; a slot is a tile or a hole. The handler copies
  the array, edits a copy of the entry at \<open>index\<close> and stores it back; a store past the
  end extends the array.
\<close>

definition handleTileChange ::
  "arithmetic \<Rightarrow> settings \<Rightarrow> tile option list \<Rightarrow> nat \<Rightarrow> field \<Rightarrow> jsval \<Rightarrow> error + tile option list" where
  "handleTileChange ar settings tiles index field value =
     (let tile0 = (if index < length tiles
                   then (case tiles ! index of Some t \<Rightarrow> t | None \<Rightarrow> empty_tile)
                   else empty_tile)
      in bind_err (handleTileChange_body ar settings tile0 field value) (\<lambda>tile.
           Inr (if index < length tiles then tiles[index := Some tile]
                else tiles @ replicate (index - length tiles) None @ [Some tile])))"

section \<open>Well-typed documents (types.ts) and the pipeline of the specification\<close>

text \<open>
  The interfaces of types.ts, for documents whose fields hold what their types announce:
  a \<^verbatim>\<open>number\<close> is a real, \<^verbatim>\<open>number | null\<close> an optional real, and an optional
  flag an optional boolean (\<open>None\<close>: the key is absent).
\<close>

record Tile =
  Tile_category :: string
  Tile_cartons :: real
  Tile_sqm :: real
  Tile_tileType :: string
  Tile_unitPrice :: real
  Tile_size :: "string option"
  Tile_group :: "string option"

record Material =
  Material_item :: string
  Material_quantity :: real
  Material_unit :: string
  Material_unitPrice :: real



record InvoiceData =
  I_tiles :: "Tile list"
  I_materials :: "Material list"
  I_workmanshipRate :: real
  I_maintenance :: real
  I_profitPercentage :: "real option"
  I_showMaterials :: "bool option"
  I_showAdjustments :: "bool option"

record Settings =
  S_taxPercentage :: real
  S_showMaintenance :: bool
  S_showTax :: bool
  S_showMaterialsDefault :: bool
  S_showAdjustmentsDefault :: bool
  S_wastageFactor :: real
  S_tilePricesBySize :: "(string \<times> real) list"
  S_wallTileM2PerCarton :: real
  S_floorTileM2PerCarton :: real
  S_sittingRoomTileM2PerCarton :: real
  S_roomTileM2PerCarton :: real
  S_externalWallTileM2PerCarton :: real
  S_stepTileM2PerCarton :: real
  S_toiletWallTileM2PerCarton :: real
  S_toiletFloorTileM2PerCarton :: real
  S_kitchenWallTileM2PerCarton :: real
  S_kitchenFloorTileM2PerCarton :: real

text \<open>
  The objects that such documents are at run time. A number of the typed document is the
  value that its literal spells; the object holds its rounding.
\<close>

definition opt_string :: "string option \<Rightarrow> jsval" where
  "opt_string s = (case s of None \<Rightarrow> JUndefined | Some x \<Rightarrow> JStr x)"

definition opt_number :: "arithmetic \<Rightarrow> real option \<Rightarrow> jsval" where
  "opt_number ar p = (case p of None \<Rightarrow> JNull | Some x \<Rightarrow> JNum (rounded ar x))"

definition opt_flag :: "bool option \<Rightarrow> jsval" where
  "opt_flag b = (case b of None \<Rightarrow> JUndefined | Some x \<Rightarrow> JBool x)"

definition tile_object :: "arithmetic \<Rightarrow> Tile \<Rightarrow> tile" where
  "tile_object ar t =
     \<lparr> t_category = JStr (Tile_category t), t_group = opt_string (Tile_group t),
       t_size = opt_string (Tile_size t), t_tileType = JStr (Tile_tileType t),
       t_sqm = JNum (rounded ar (Tile_sqm t)), t_cartons = JNum (rounded ar (Tile_cartons t)),
       t_unitPrice = JNum (rounded ar (Tile_unitPrice t)), t_addWastage = JUndefined \<rparr>"

definition material_object :: "arithmetic \<Rightarrow> Material \<Rightarrow> material" where
  "material_object ar m =
     \<lparr> m_item = JStr (Material_item m), m_quantity = JNum (rounded ar (Material_quantity m)),
       m_unit = JStr (Material_unit m), m_unitPrice = JNum (rounded ar (Material_unitPrice m)) \<rparr>"



definition invoice_object :: "arithmetic \<Rightarrow> InvoiceData \<Rightarrow> document" where
  "invoice_object ar i =
     \<lparr> d_tiles = Arr (map (Some \<circ> tile_object ar) (I_tiles i)),
       d_materials = Arr (map (Some \<circ> material_object ar) (I_materials i)),
       d_workmanshipRate = JNum (rounded ar (I_workmanshipRate i)),
       d_maintenance = JNum (rounded ar (I_maintenance i)),
       d_profitPercentage = opt_number ar (I_profitPercentage i),
       d_showMaterials = opt_flag (I_showMaterials i),
       d_showAdjustments = opt_flag (I_showAdjustments i),
       d_showTax = None,
       d_showMaintenance = None,
       d_showWorkmanship = None,
       d_adjustments = None,
       d_depositPercentage = None \<rparr>"

definition settings_object :: "arithmetic \<Rightarrow> Settings \<Rightarrow> settings" where
  "settings_object ar S =
     \<lparr> s_taxPercentage = JNum (rounded ar (S_taxPercentage S)),
       s_showMaintenance = JBool (S_showMaintenance S),
       s_showTax = JBool (S_showTax S),
       s_showMaterialsDefault = JBool (S_showMaterialsDefault S),
       s_showAdjustmentsDefault = JBool (S_showAdjustmentsDefault S),
       s_wastageFactor = rounded ar (S_wastageFactor S),
       s_tilePricesBySize = map (\<lambda>(size, price). (size, rounded ar price)) (S_tilePricesBySize S),
       s_wallTileM2PerCarton = rounded ar (S_wallTileM2PerCarton S),
       s_floorTileM2PerCarton = rounded ar (S_floorTileM2PerCarton S),
       s_sittingRoomTileM2PerCarton = rounded ar (S_sittingRoomTileM2PerCarton S),
       s_roomTileM2PerCarton = rounded ar (S_roomTileM2PerCarton S),
       s_externalWallTileM2PerCarton = rounded ar (S_externalWallTileM2PerCarton S),
       s_stepTileM2PerCarton = rounded ar (S_stepTileM2PerCarton S),
       s_toiletWallTileM2PerCarton = rounded ar (S_toiletWallTileM2PerCarton S),
       s_toiletFloorTileM2PerCarton = rounded ar (S_toiletFloorTileM2PerCarton S),
       s_kitchenWallTileM2PerCarton = rounded ar (S_kitchenWallTileM2PerCarton S),
       s_kitchenFloorTileM2PerCarton = rounded ar (S_kitchenFloorTileM2PerCarton S) \<rparr>"


















section \<open>Concrete settings and documents\<close>

text \<open>\<^verbatim>\<open>DEFAULT_SETTINGS\<close> of the constants module, for the fields of the model.\<close>

definition DEFAULT_SETTINGS :: Settings where
  "DEFAULT_SETTINGS =
     \<lparr> S_taxPercentage = 7.5, S_showMaintenance = True, S_showTax = False,
       S_showMaterialsDefault = True, S_showAdjustmentsDefault = True,
       S_wastageFactor = 1.10,
       S_tilePricesBySize =
         [(''60x60'', 6500), (''30x60'', 5600), (''40x40'', 5000), (''30x30'', 4500),
          (''60x120'', 12000), (''25x40'', 5600)],
       S_wallTileM2PerCarton = 1.5, S_floorTileM2PerCarton = 1.5,
       S_sittingRoomTileM2PerCarton = 1.5, S_roomTileM2PerCarton = 1.5,
       S_externalWallTileM2PerCarton = 1.5, S_stepTileM2PerCarton = 1.5,
       S_toiletWallTileM2PerCarton = 1.5, S_toiletFloorTileM2PerCarton = 1.5,
       S_kitchenWallTileM2PerCarton = 1.5, S_kitchenFloorTileM2PerCarton = 1.5 \<rparr>"

text \<open>
  A quotation with one kitchen-wall line of 95 square metres in 64 cartons, a discount and a
  surcharge, 10 per cent profit and a 50 per cent deposit, as the service produces it
  (the three flags of the granular visibility controls are present).
\<close>

definition sample_tile :: "jsval \<Rightarrow> jsval \<Rightarrow> jsval \<Rightarrow> tile" where
  "sample_tile sqm cartons price =
     \<lparr> t_category = JStr ''Kitchen Wall'', t_group = JStr ''General'',
       t_size = JStr ''30x60'', t_tileType = JStr ''Wall'',
       t_sqm = sqm, t_cartons = cartons, t_unitPrice = price,
       t_addWastage = JUndefined \<rparr>"

definition sample_quotation :: "tile \<Rightarrow> document" where
  "sample_quotation line =
     \<lparr> d_tiles = Arr [Some line],
       d_materials = Arr [Some \<lparr> m_item = JStr ''Cement'', m_quantity = JNum (Fin 60),
                                 m_unit = JStr ''bags'', m_unitPrice = JNum (Fin 10000) \<rparr>],
       d_workmanshipRate = JNum (Fin 1700),
       d_maintenance = JNum (Fin 0),
       d_profitPercentage = JNum (Fin 10),
       d_showMaterials = JBool True,
       d_showAdjustments = JBool True,
       d_showTax = Some (JBool True),
       d_showMaintenance = Some (JBool True),
       d_showWorkmanship = Some (JBool True),
       d_adjustments =
         Some (Arr [Some \<lparr> a_description = JStr ''Discount'', a_amount = JNum (Fin (- 5000)) \<rparr>,
                    Some \<lparr> a_description = JStr ''Extra Prep'', a_amount = JNum (Fin 2000) \<rparr>]),
       d_depositPercentage = Some (JNum (Fin 50)) \<rparr>"

section \<open>Malformed input\<close>

text \<open>Every element of the array is an object.\<close>

definition all_objects :: "'a option list \<Rightarrow> bool" where
  "all_objects xs = list_all (\<lambda>x. x \<noteq> None) xs"

definition entries_are_objects :: "document \<Rightarrow> bool" where
  "entries_are_objects d =
     (all_objects (safe_array (d_tiles d)) \<and> all_objects (safe_array (d_materials d))
      \<and> (case d_adjustments d of Some (Arr xs) \<Rightarrow> all_objects xs | _ \<Rightarrow> True))"

text \<open>The value does not convert to an infinity: it converts to a real or to NaN.\<close>

definition not_infinite :: "arithmetic \<Rightarrow> jsval \<Rightarrow> bool" where
  "not_infinite ar v = (toNumber ar v \<noteq> PInf \<and> toNumber ar v \<noteq> NInf)"

definition on_objects :: "('a \<Rightarrow> bool) \<Rightarrow> 'a option list \<Rightarrow> bool" where
  "on_objects P xs = list_all (\<lambda>x. case x of None \<Rightarrow> True | Some y \<Rightarrow> P y) xs"

definition no_infinite_input :: "arithmetic \<Rightarrow> document \<Rightarrow> settings \<Rightarrow> bool" where
  "no_infinite_input ar d s =
     (on_objects (\<lambda>t. not_infinite ar (t_sqm t) \<and> not_infinite ar (t_cartons t)
                       \<and> not_infinite ar (t_unitPrice t)) (safe_array (d_tiles d))
      \<and> on_objects (\<lambda>m. not_infinite ar (m_quantity m) \<and> not_infinite ar (m_unitPrice m))
           (safe_array (d_materials d))
      \<and> (case d_adjustments d of
            Some (Arr xs) \<Rightarrow> on_objects (\<lambda>a. not_infinite ar (a_amount a)) xs
          | _ \<Rightarrow> True)
      \<and> not_infinite ar (d_workmanshipRate d) \<and> not_infinite ar (d_maintenance d)
      \<and> not_infinite ar (d_profitPercentage d)
      \<and> (case d_depositPercentage d of Some p \<Rightarrow> not_infinite ar p | None \<Rightarrow> True)
      \<and> not_infinite ar (s_taxPercentage s))"

definition finite_summary :: "summary \<Rightarrow> bool" where
  "finite_summary sm =
     (is_finite (totalSqm sm) \<and> is_finite (totalTileCost sm)
      \<and> is_finite (totalMaterialCost sm) \<and> is_finite (workmanshipCost sm)
      \<and> is_finite (workmanshipAndMaintenance sm) \<and> is_finite (profitAmount sm)
      \<and> is_finite (subtotal sm) \<and> is_finite (totalAdjustments sm)
      \<and> is_finite (taxAmount sm) \<and> is_finite (grandTotal sm)
      \<and> is_finite (depositAmount sm))"

text \<open>
  The document in which every numeric input that converts to NaN is replaced by the
  number 0.
\<close>

definition zero_malformed :: "arithmetic \<Rightarrow> jsval \<Rightarrow> jsval" where
  "zero_malformed ar v = (if toNumber ar v = NaN then JNum (Fin 0) else v)"

definition zero_malformed_tile :: "arithmetic \<Rightarrow> tile \<Rightarrow> tile" where
  "zero_malformed_tile ar t =
     t\<lparr> t_sqm := zero_malformed ar (t_sqm t), t_cartons := zero_malformed ar (t_cartons t),
        t_unitPrice := zero_malformed ar (t_unitPrice t) \<rparr>"

definition zero_malformed_material :: "arithmetic \<Rightarrow> material \<Rightarrow> material" where
  "zero_malformed_material ar m =
     m\<lparr> m_quantity := zero_malformed ar (m_quantity m),
        m_unitPrice := zero_malformed ar (m_unitPrice m) \<rparr>"

definition zero_malformed_adjustment :: "arithmetic \<Rightarrow> adjustment \<Rightarrow> adjustment" where
  "zero_malformed_adjustment ar a = a\<lparr> a_amount := zero_malformed ar (a_amount a) \<rparr>"

fun map_array :: "('a \<Rightarrow> 'a) \<Rightarrow> 'a jsarray \<Rightarrow> 'a jsarray" where
  "map_array f (Arr xs) = Arr (map (map_option f) xs)"
| "map_array f (NotArr v) = NotArr v"

definition zero_malformed_document :: "arithmetic \<Rightarrow> document \<Rightarrow> document" where
  "zero_malformed_document ar d =
     d\<lparr> d_tiles := map_array (zero_malformed_tile ar) (d_tiles d),
        d_materials := map_array (zero_malformed_material ar) (d_materials d),
        d_adjustments := map_option (map_array (zero_malformed_adjustment ar)) (d_adjustments d),
        d_workmanshipRate := zero_malformed ar (d_workmanshipRate d),
        d_maintenance := zero_malformed ar (d_maintenance d),
        d_profitPercentage := zero_malformed ar (d_profitPercentage d),
        d_depositPercentage := map_option (zero_malformed ar) (d_depositPercentage d) \<rparr>"

definition zero_malformed_settings :: "arithmetic \<Rightarrow> settings \<Rightarrow> settings" where
  "zero_malformed_settings ar s = s\<lparr> s_taxPercentage := zero_malformed ar (s_taxPercentage s) \<rparr>"

text \<open>The sample quotation with its five visibility flags switched off.\<close>

definition hidden_quotation :: document where
  "hidden_quotation =
     (sample_quotation (sample_tile (JNum (Fin 95)) (JNum (Fin 64)) (JNum (Fin 5600))))
       \<lparr> d_showMaterials := JBool False, d_showAdjustments := JBool False,
         d_showTax := Some (JBool False), d_showMaintenance := Some (JBool False),
         d_showWorkmanship := Some (JBool False) \<rparr>"

text \<open>An invoice: the document type without flags, adjustments and deposit.\<close>

definition sample_invoice :: InvoiceData where
  "sample_invoice =
     \<lparr> I_tiles = [\<lparr> Tile_category = ''Kitchen Wall'', Tile_cartons = 64, Tile_sqm = 95,
                      Tile_tileType = ''Wall'', Tile_unitPrice = 5600,
                      Tile_size = Some ''30x60'', Tile_group = Some ''General'' \<rparr>],
       I_materials = [\<lparr> Material_item = ''Cement'', Material_quantity = 60,
                          Material_unit = ''bags'', Material_unitPrice = 10000 \<rparr>],
       I_workmanshipRate = 1700, I_maintenance = 0, I_profitPercentage = Some 10,
       I_showMaterials = None, I_showAdjustments = None \<rparr>"

section \<open>The state of the editor after an event\<close>

text \<open>
  The handler ends with \<^verbatim>\<open>setTiles(newTiles)\<close>; an exception before that leaves the
  state as it was.
\<close>

definition tiles_after ::
  "arithmetic \<Rightarrow> settings \<Rightarrow> tile option list \<Rightarrow> nat \<Rightarrow> field \<Rightarrow> jsval \<Rightarrow> tile option list" where
  "tiles_after ar settings tiles index field value =
     (case handleTileChange ar settings tiles index field value of
        Inl e \<Rightarrow> tiles
      | Inr newTiles \<Rightarrow> newTiles)"

text \<open>
  What \<^verbatim>\<open>generateQuotationFromAI\<close> does with the parsed answer of the model: it returns
  the answer with the visibility flags of the settings added, of which the calculation
  reads three.
\<close>

definition inject_visibility_defaults :: "settings \<Rightarrow> document \<Rightarrow> document" where
  "inject_visibility_defaults settings parsedData =
     parsedData\<lparr> d_showWorkmanship := Some (JBool True),
                  d_showMaintenance := Some (s_showMaintenance settings),
                  d_showTax := Some (s_showTax settings) \<rparr>"

text \<open>A tile line in the editor, and settings with a coverage rate of three decimals.\<close>

definition edited_tile :: tile where
  "edited_tile =
     \<lparr> t_category = JStr ''Kitchen Wall'', t_group = JStr ''General'',
       t_size = JStr ''30x60'', t_tileType = JStr ''Wall'',
       t_sqm = JNum (Fin 0), t_cartons = JNum (Fin 0), t_unitPrice = JNum (Fin 9999),
       t_addWastage = JBool False \<rparr>"



text \<open>Settings in which the coverage rate of kitchen walls is 1.44.\<close>

definition rate_1_44_settings :: "arithmetic \<Rightarrow> settings" where
  "rate_1_44_settings ar =
     settings_object ar (DEFAULT_SETTINGS\<lparr> S_kitchenWallTileM2PerCarton := 1.44 \<rparr>)"
section \<open>Rounding to the nearest integer\<close>

lemma round_even_cases:
  "round_even x = \<lfloor>x\<rfloor> \<or> round_even x = \<lfloor>x\<rfloor> + 1"
  by (simp add: round_even_def Let_def)


lemma round_even_of_int [simp]: "round_even (of_int n) = n"
  by (simp add: round_even_def)

lemma round_even_le: "x \<le> of_int N \<Longrightarrow> round_even x \<le> N"
proof -
  assume a: "x \<le> of_int N"
  show ?thesis
  proof (cases "x = of_int N")
    case True
    then show ?thesis by simp
  next
    case False
    with a have "x < of_int N" by simp
    then have "\<lfloor>x\<rfloor> < N" by (simp add: floor_less_iff)
    with round_even_cases [of x] show ?thesis by linarith
  qed
qed

lemma round_even_ge: "of_int N \<le> x \<Longrightarrow> N \<le> round_even x"
proof -
  assume "of_int N \<le> x"
  then have "N \<le> \<lfloor>x\<rfloor>" by (simp add: le_floor_iff)
  with round_even_cases [of x] show ?thesis by linarith
qed

section \<open>The exponent of the last place\<close>

lemma exponent_from_range: "e \<le> exponent_from n e a \<and> exponent_from n e a \<le> e + int n"
proof (induction n arbitrary: e)
  case 0
  show ?case by simp
next
  case (Suc n)
  from Suc [of "e + 1"] show ?case by simp
qed

lemma exponent_from_upper:
  "exponent_from n e a < e + int n \<Longrightarrow> a < 2 powi (exponent_from n e a + 53)"
proof (induction n arbitrary: e)
  case 0
  then show ?case by simp
next
  case (Suc n)
  from Suc.IH [of "e + 1"] Suc.prems show ?case by (simp split: if_splits)
qed

lemma exponent_from_lower:
  "e < exponent_from n e a \<Longrightarrow> 2 powi (exponent_from n e a + 52) \<le> a"
proof (induction n arbitrary: e)
  case 0
  then show ?case by simp
next
  case (Suc n)
  show ?case
  proof (cases "a < 2 powi (e + 53)")
    case True
    with Suc.prems show ?thesis by simp
  next
    case False
    then have r: "exponent_from (Suc n) e a = exponent_from n (e + 1) a" by simp
    show ?thesis
    proof (cases "e + 1 < exponent_from n (e + 1) a")
      case True
      from Suc.IH [OF this] r show ?thesis by simp
    next
      case False
      with exponent_from_range [of "e + 1" n a] have "exponent_from n (e + 1) a = e + 1" by simp
      with r \<open>\<not> a < 2 powi (e + 53)\<close> show ?thesis by (simp add: add.commute)
    qed
  qed
qed

lemma ulp_exponent_range: "- 1074 \<le> ulp_exponent a" "ulp_exponent a \<le> 971"
  using exponent_from_range [of "- 1074" 2045 a] by (simp_all add: ulp_exponent_def)

lemma ulp_exponent_upper: "ulp_exponent a < 971 \<Longrightarrow> a < 2 powi (ulp_exponent a + 53)"
  using exponent_from_upper [of 2045 "- 1074" a] by (simp add: ulp_exponent_def)

lemma ulp_exponent_lower: "- 1074 < ulp_exponent a \<Longrightarrow> 2 powi (ulp_exponent a + 52) \<le> a"
  using exponent_from_lower [of "- 1074" 2045 a] by (simp add: ulp_exponent_def)

lemma pow2_less_iff: "(2::real) powi m < 2 powi n \<longleftrightarrow> m < n"
proof
  assume "(2::real) powi m < 2 powi n"
  show "m < n"
  proof (rule ccontr)
    assume "\<not> m < n"
    then have "n \<le> m" by simp
    then have "(2::real) powi n \<le> 2 powi m" by (intro power_int_increasing) simp_all
    with \<open>(2::real) powi m < 2 powi n\<close> show False by simp
  qed
next
  assume "m < n"
  then show "(2::real) powi m < 2 powi n" by (intro power_int_strict_increasing) simp_all
qed

lemma pow2_le_iff: "(2::real) powi m \<le> 2 powi n \<longleftrightarrow> m \<le> n"
  using pow2_less_iff [of n m] by (auto simp: not_less [symmetric])

lemma ulp_exponent_eq:
  assumes "- 1074 \<le> e" "e \<le> 971"
    and lo: "e = - 1074 \<or> 2 powi (e + 52) \<le> a"
    and hi: "e = 971 \<or> a < 2 powi (e + 53)"
  shows "ulp_exponent a = e"
proof (rule antisym)
  show "ulp_exponent a \<le> e"
  proof (rule ccontr)
    assume "\<not> ulp_exponent a \<le> e"
    then have gt: "e < ulp_exponent a" by simp
    with ulp_exponent_range(2) [of a] have "e \<noteq> 971" by simp
    with hi have h: "a < 2 powi (e + 53)" by simp
    from gt assms(1) have "- 1074 < ulp_exponent a" by simp
    from ulp_exponent_lower [OF this] h have "(2::real) powi (ulp_exponent a + 52) < 2 powi (e + 53)"
      by simp
    then have "ulp_exponent a + 52 < e + 53" by (simp only: pow2_less_iff)
    with gt show False by simp
  qed
  show "e \<le> ulp_exponent a"
  proof (rule ccontr)
    assume "\<not> e \<le> ulp_exponent a"
    then have lt: "ulp_exponent a < e" by simp
    with ulp_exponent_range(1) [of a] have "e \<noteq> - 1074" by simp
    with lo have l: "2 powi (e + 52) \<le> a" by simp
    from lt assms(2) have "ulp_exponent a < 971" by simp
    from ulp_exponent_upper [OF this] l have "(2::real) powi (e + 52) < 2 powi (ulp_exponent a + 53)"
      by simp
    then have "e + 52 < ulp_exponent a + 53" by (simp only: pow2_less_iff)
    with lt show False by simp
  qed
qed


section \<open>The nearest binary64 number\<close>

lemma pow2_pos [simp]: "0 < (2::real) powi e"
  by simp





section \<open>Numbers that are their own rounding\<close>

lemma nearest64_of_grid:
  assumes "x / 2 powi ulp_exponent \<bar>x\<bar> = of_int N"
  shows "nearest64 x = x"
proof -
  have "nearest64 x = of_int N * 2 powi ulp_exponent \<bar>x\<bar>"
    by (simp add: nearest64_def assms)
  also have "\<dots> = x" using assms by (simp add: field_simps)
  finally show ?thesis .
qed

lemma pow2_of_int: "0 \<le> j \<Longrightarrow> (2::real) powi j = of_int (2 ^ nat j)"
  by (simp add: power_int_nonneg_exp)

lemma pow2_split: "(2::real) powi k = 2 powi (k - e) * 2 powi e"
  by (simp add: power_int_add [symmetric])

lemma pow2_split_int: "e \<le> k \<Longrightarrow> (2::real) powi k = of_int (2 ^ nat (k - e)) * 2 powi e"
  using pow2_split [of k e] by (simp add: pow2_of_int)

lemma nearest64_exact:
  assumes x: "x = of_int n * 2 powi k" and n: "\<bar>n\<bar> \<le> 2 ^ 53" and k: "- 1074 \<le> k"
  shows "nearest64 x = x"
proof -
  define e where "e = ulp_exponent \<bar>x\<bar>"
  have p: "0 < (2::real) powi e" by simp
  have "\<exists>N. x / 2 powi e = of_int N"
  proof (cases "e \<le> k")
    case True
    have "x = of_int n * (of_int (2 ^ nat (k - e)) * 2 powi e)"
      unfolding x using pow2_split_int [OF True] by simp
    then have "x = of_int (n * 2 ^ nat (k - e)) * 2 powi e" by simp
    then have "x / 2 powi e = of_int (n * 2 ^ nat (k - e))"
      using p by (simp add: field_simps)
    then show ?thesis by (rule exI)
  next
    case False
    then have ke: "k < e" by simp
    with k have "- 1074 < ulp_exponent \<bar>x\<bar>" by (simp add: e_def)
    then have lo: "2 powi (e + 52) \<le> \<bar>x\<bar>" unfolding e_def by (rule ulp_exponent_lower)
    have ax: "\<bar>x\<bar> = of_int \<bar>n\<bar> * 2 powi k" by (simp add: x abs_mult)
    from n have "(of_int \<bar>n\<bar> :: real) \<le> of_int (2 ^ 53)" by (simp only: of_int_le_iff)
    then have "(of_int \<bar>n\<bar> :: real) \<le> 2 ^ 53" by simp
    then have "of_int \<bar>n\<bar> * (2::real) powi k \<le> 2 ^ 53 * 2 powi k"
      by (intro mult_right_mono) simp_all
    also have "\<dots> = 2 powi (k + 53)" by (simp add: power_int_add)
    finally have hi: "\<bar>x\<bar> \<le> 2 powi (k + 53)" by (simp only: ax)
    from lo hi have "(2::real) powi (e + 52) \<le> 2 powi (k + 53)" by simp
    then have "e + 52 \<le> k + 53" by (simp only: pow2_le_iff)
    with ke have e: "k + 53 = e + 52" by simp
    from lo hi have "\<bar>x\<bar> = 2 powi (e + 52)" unfolding e by simp
    also have "\<dots> = 2 ^ 52 * 2 powi e" by (simp add: power_int_add)
    finally have "\<bar>x\<bar> / 2 powi e = 2 ^ 52" using p by simp
    then have "\<bar>x / 2 powi e\<bar> = 2 ^ 52" by (simp add: abs_divide)
    then have "x / 2 powi e = of_int (2 ^ 52) \<or> x / 2 powi e = of_int (- (2 ^ 52))"
      by (auto simp: abs_if split: if_splits)
    then show ?thesis by blast
  qed
  then obtain N where "x / 2 powi ulp_exponent \<bar>x\<bar> = of_int N" unfolding e_def by blast
  then show ?thesis by (rule nearest64_of_grid)
qed

text \<open>Rounding does not pass a number of the format.\<close>

lemma nearest64_bounded:
  assumes b: "\<bar>x\<bar> \<le> of_int n * 2 powi k" and n: "n \<le> 2 ^ 53" and k: "- 1074 \<le> k"
  shows "\<bar>nearest64 x\<bar> \<le> of_int n * 2 powi k"
proof -
  define e where "e = ulp_exponent \<bar>x\<bar>"
  define B where "B = of_int n * (2::real) powi k"
  have p: "0 < (2::real) powi e" by simp
  have "\<exists>N. \<bar>x\<bar> \<le> of_int N * 2 powi e \<and> of_int N * 2 powi e \<le> B"
  proof (cases "e \<le> k")
    case True
    have "B = of_int n * (of_int (2 ^ nat (k - e)) * 2 powi e)"
      unfolding B_def using pow2_split_int [OF True] by simp
    then have "B = of_int (n * 2 ^ nat (k - e)) * 2 powi e" by simp
    with b show ?thesis unfolding B_def [symmetric] by (intro exI [of _ "n * 2 ^ nat (k - e)"]) simp
  next
    case False
    then have ke: "k < e" by simp
    with k have "- 1074 < ulp_exponent \<bar>x\<bar>" by (simp add: e_def)
    then have lo: "2 powi (e + 52) \<le> \<bar>x\<bar>" unfolding e_def by (rule ulp_exponent_lower)
    from n have "(of_int n :: real) \<le> of_int (2 ^ 53)" by (simp only: of_int_le_iff)
    then have "(of_int n :: real) \<le> 2 ^ 53" by simp
    then have "B \<le> 2 ^ 53 * 2 powi k" unfolding B_def by (intro mult_right_mono) simp_all
    also have "\<dots> = 2 powi (k + 53)" by (simp add: power_int_add)
    also have "\<dots> \<le> 2 powi (e + 52)" using ke by (simp add: pow2_le_iff)
    finally have hi: "B \<le> 2 powi (e + 52)" .
    have "(2::real) powi (e + 52) = of_int (2 ^ 52) * 2 powi e"
      by (simp add: power_int_add)
    with lo hi b show ?thesis unfolding B_def [symmetric] by (intro exI [of _ "2 ^ 52"]) simp
  qed
  then obtain N where N: "\<bar>x\<bar> \<le> of_int N * 2 powi e" "of_int N * 2 powi e \<le> B"
    by blast
  from N(1) have "x \<le> of_int N * 2 powi e" "- (of_int N * 2 powi e) \<le> x" by linarith+
  then have "x / 2 powi e \<le> of_int N" "of_int (- N) \<le> x / 2 powi e"
    using p by (simp_all add: pos_divide_le_eq pos_le_divide_eq)
  then have "round_even (x / 2 powi e) \<le> N" "- N \<le> round_even (x / 2 powi e)"
    by (simp_all only: round_even_le round_even_ge)
  then have "\<bar>round_even (x / 2 powi e)\<bar> \<le> N" by simp
  then have "\<bar>of_int (round_even (x / 2 powi e)) :: real\<bar> \<le> of_int N"
    by (simp only: of_int_abs [symmetric] of_int_le_iff)
  then have "\<bar>of_int (round_even (x / 2 powi e)) :: real\<bar> * 2 powi e \<le> of_int N * 2 powi e"
    by (intro mult_right_mono) simp_all
  then have "\<bar>nearest64 x\<bar> \<le> of_int N * 2 powi e"
    by (simp add: nearest64_def abs_mult e_def)
  with N(2) show ?thesis unfolding B_def by simp
qed


section \<open>The rounded result\<close>

lemma overflow_threshold_eq: "overflow_threshold = 2 ^ 53 * 2 powi 971"
  by (simp add: overflow_threshold_def)

lemma binary64_Fin: "\<bar>nearest64 x\<bar> < overflow_threshold \<Longrightarrow> binary64 x = Fin (nearest64 x)"
  unfolding binary64_def abs_less_iff by simp

lemma binary64_FinD:
  assumes "binary64 x = Fin y"
  shows "y = nearest64 x" and "\<bar>y\<bar> < overflow_threshold"
  using assms unfolding binary64_def abs_less_iff by (simp_all split: if_splits)

lemma binary64_bounded:
  assumes "\<bar>x\<bar> \<le> of_int n * 2 powi k" "n \<le> 2 ^ 53" "- 1074 \<le> k"
    and "of_int n * (2::real) powi k < overflow_threshold"
  shows "binary64 x = Fin (nearest64 x)" and "\<bar>nearest64 x\<bar> \<le> of_int n * 2 powi k"
proof -
  show b: "\<bar>nearest64 x\<bar> \<le> of_int n * 2 powi k"
    using assms(1-3) by (rule nearest64_bounded)
  with assms(4) have "\<bar>nearest64 x\<bar> < overflow_threshold" by simp
  then show "binary64 x = Fin (nearest64 x)" by (rule binary64_Fin)
qed

lemma binary64_exact:
  assumes "x = of_int n * 2 powi k" "\<bar>n\<bar> \<le> 2 ^ 53" "- 1074 \<le> k"
    and "\<bar>x\<bar> < overflow_threshold"
  shows "binary64 x = Fin x"
proof -
  have "nearest64 x = x" using assms(1-3) by (rule nearest64_exact)
  with binary64_Fin [of x] assms(4) show ?thesis by simp
qed

lemma binary64_of_int: "\<bar>n\<bar> \<le> 2 ^ 53 \<Longrightarrow> binary64 (of_int n) = Fin (of_int n)"
proof (rule binary64_exact [where n = n and k = 0])
  assume n: "\<bar>n\<bar> \<le> 2 ^ 53"
  then have "(of_int \<bar>n\<bar> :: real) \<le> of_int (2 ^ 53)" by (simp only: of_int_le_iff)
  then show "\<bar>of_int n :: real\<bar> < overflow_threshold" by (simp add: overflow_threshold_def)
qed simp_all

lemma binary64_0 [simp]: "binary64 0 = Fin 0"
  using binary64_of_int [of 0] by simp

lemma binary64_1 [simp]: "binary64 1 = Fin 1"
  using binary64_of_int [of 1] by simp

lemma binary64_numeral:
  "numeral w \<le> (9007199254740992::int) \<Longrightarrow> binary64 (numeral w) = Fin (numeral w)"
  using binary64_of_int [of "numeral w"] by simp

lemma binary64_neg_numeral:
  "numeral w \<le> (9007199254740992::int) \<Longrightarrow> binary64 (- numeral w) = Fin (- numeral w)"
  using binary64_of_int [of "- numeral w"] by simp

text \<open>A result of the rounding is its own rounding.\<close>

lemma nearest64_mantissa:
  assumes "\<bar>nearest64 x\<bar> < overflow_threshold"
  shows "\<bar>round_even (x / 2 powi ulp_exponent \<bar>x\<bar>)\<bar> \<le> 2 ^ 53"
proof -
  define e where "e = ulp_exponent \<bar>x\<bar>"
  define m where "m = round_even (x / 2 powi e)"
  have p: "0 < (2::real) powi e" by simp
  show ?thesis
  proof (cases "e < 971")
    case True
    then have "\<bar>x\<bar> < 2 powi (e + 53)" unfolding e_def by (rule ulp_exponent_upper)
    also have "\<dots> = 2 ^ 53 * 2 powi e" by (simp add: power_int_add)
    finally have "\<bar>x\<bar> / 2 powi e < 2 ^ 53" using p by (simp add: pos_divide_less_eq)
    then have "\<bar>x / 2 powi e\<bar> < of_int (2 ^ 53)" by (simp add: abs_divide)
    then have "x / 2 powi e \<le> of_int (2 ^ 53)" "of_int (- (2 ^ 53)) \<le> x / 2 powi e"
      unfolding abs_less_iff by simp_all
    then have "m \<le> 2 ^ 53" "- (2 ^ 53) \<le> m"
      unfolding m_def by (simp_all only: round_even_le round_even_ge)
    then show ?thesis unfolding m_def e_def by simp
  next
    case False
    with ulp_exponent_range(2) [of "\<bar>x\<bar>"] have e: "e = 971" by (simp add: e_def)
    have "\<bar>nearest64 x\<bar> = of_int \<bar>m\<bar> * 2 powi 971"
      by (simp add: nearest64_def m_def e_def [symmetric] e abs_mult)
    with assms have "of_int \<bar>m\<bar> * (2::real) powi 971 < 2 ^ 53 * 2 powi 971"
      by (simp only: overflow_threshold_eq)
    then have "(of_int \<bar>m\<bar> :: real) < 2 ^ 53" by simp
    then have "(of_int \<bar>m\<bar> :: real) < of_int (2 ^ 53)" by simp
    then have "\<bar>m\<bar> < 2 ^ 53" by (simp only: of_int_less_iff)
    then show ?thesis unfolding m_def e_def by simp
  qed
qed

lemma binary64_stable: "binary64 x = Fin y \<Longrightarrow> binary64 y = Fin y"
proof -
  assume a: "binary64 x = Fin y"
  have y: "y = nearest64 x" and b: "\<bar>y\<bar> < overflow_threshold"
    using binary64_FinD [OF a] by simp_all
  from b have m: "\<bar>round_even (x / 2 powi ulp_exponent \<bar>x\<bar>)\<bar> \<le> 2 ^ 53"
    unfolding y by (rule nearest64_mantissa)
  have "y = of_int (round_even (x / 2 powi ulp_exponent \<bar>x\<bar>)) * 2 powi ulp_exponent \<bar>x\<bar>"
    by (simp add: y nearest64_def)
  then show ?thesis using m ulp_exponent_range(1) [of "\<bar>x\<bar>"] b by (rule binary64_exact)
qed

text \<open>The rounding of a number whose binade is known.\<close>

lemma binary64_eval:
  assumes "- 1074 \<le> e" "e \<le> 970"
    and "e = - 1074 \<or> 2 powi (e + 52) \<le> \<bar>x\<bar>"
    and "\<bar>x\<bar> < 2 powi (e + 53)"
    and "round_even (x / 2 powi e) = m"
    and "y = of_int m * 2 powi e"
  shows "binary64 x = Fin y"
proof -
  have e: "ulp_exponent \<bar>x\<bar> = e"
    using assms(1-4) by (intro ulp_exponent_eq) simp_all
  then have n: "nearest64 x = y" by (simp add: nearest64_def assms(5,6))
  have "\<bar>x\<bar> \<le> of_int (2 ^ 53) * 2 powi e"
    using assms(4) by (simp add: power_int_add)
  moreover have "of_int (2 ^ 53) * (2::real) powi e < overflow_threshold"
  proof -
    have "(2::real) powi e \<le> 2 powi 970" using assms(2) by (simp only: pow2_le_iff)
    then have "2 ^ 53 * (2::real) powi e \<le> 2 ^ 53 * 2 powi 970" by simp
    also have "\<dots> < 2 ^ 53 * 2 powi 971" by (simp add: pow2_less_iff)
    finally show ?thesis by (simp add: overflow_threshold_eq)
  qed
  ultimately have "binary64 x = Fin (nearest64 x)"
    using assms(1) by (intro binary64_bounded(1) [where n = "2 ^ 53" and k = e]) simp_all
  with n show ?thesis by simp
qed






text \<open>A magnitude from \<open>2 ^ 1024\<close> on overflows.\<close>

lemma binary64_overflow:
  assumes "overflow_threshold \<le> x"
  shows "binary64 x = PInf"
proof -
  have t: "overflow_threshold = 2 ^ 53 * 2 powi 971" by (rule overflow_threshold_eq)
  have x0: "0 \<le> x" using assms by (simp add: overflow_threshold_def)
  have "(2::real) powi (971 + 52) \<le> 2 ^ 53 * 2 powi 971" by simp
  with assms have "2 powi (971 + 52) \<le> \<bar>x\<bar>" using x0 unfolding t by simp
  then have e: "ulp_exponent \<bar>x\<bar> = 971" by (intro ulp_exponent_eq) simp_all
  from assms have "of_int (2 ^ 53) * 2 powi 971 \<le> x" unfolding t by simp
  then have "of_int (2 ^ 53) \<le> x / 2 powi 971" by (simp add: pos_le_divide_eq)
  then have "2 ^ 53 \<le> round_even (x / 2 powi 971)" by (rule round_even_ge)
  then have "(of_int (2 ^ 53) :: real) \<le> of_int (round_even (x / 2 powi 971))"
    by (simp only: of_int_le_iff)
  then have "of_int (2 ^ 53) * 2 powi 971 \<le> of_int (round_even (x / 2 powi 971)) * (2::real) powi 971"
    by (intro mult_right_mono) simp_all
  then have "overflow_threshold \<le> nearest64 x" unfolding t nearest64_def e by simp
  then show ?thesis by (simp add: binary64_def)
qed

section \<open>The two arithmetics\<close>

text \<open>A number that an operation can return: it is its own rounding.\<close>

lemma rounded_stable: "rounded ar x = Fin y \<Longrightarrow> rounded ar y = Fin y"
  by (cases ar) (simp_all add: binary64_stable)

lemma rounded_0 [simp]: "rounded ar 0 = Fin 0"
  by (cases ar) simp_all

lemma rounded_1 [simp]: "rounded ar 1 = Fin 1"
  by (cases ar) simp_all

lemma rounded_of_int: "\<bar>n\<bar> \<le> 2 ^ 53 \<Longrightarrow> rounded ar (of_int n) = Fin (of_int n)"
  by (cases ar) (simp_all add: binary64_of_int)

lemma rounded_numeral:
  "numeral w \<le> (9007199254740992::int) \<Longrightarrow> rounded ar (numeral w) = Fin (numeral w)"
  using rounded_of_int [of "numeral w" ar] by simp

lemma rounded_neg_numeral:
  "numeral w \<le> (9007199254740992::int) \<Longrightarrow> rounded ar (- numeral w) = Fin (- numeral w)"
  using rounded_of_int [of "- numeral w" ar] by simp

text \<open>Some roundings: a tenth is not in the format, a half is.\<close>

lemma binary64_tenth: "binary64 (1 / 10) = Fin (3602879701896397 / 36028797018963968)"
  by (rule binary64_eval [where e = "- 56" and m = 7205759403792794])
     (simp_all add: round_even_def)

lemma binary64_half: "binary64 (1 / 2) = Fin (1 / 2)"
  by (rule binary64_exact [where n = 1 and k = "- 1"]) (simp_all add: overflow_threshold_def)

lemma binary64_three_halves: "binary64 (3 / 2) = Fin (3 / 2)"
  by (rule binary64_exact [where n = 3 and k = "- 1"]) (simp_all add: overflow_threshold_def)

section \<open>The sums of calculateTotals\<close>


lemma calculateTotals_sums:
  assumes "reduce (tile_sqm_step ar) (safe_array (d_tiles data)) (Fin 0) = Inr a"
    and "reduce (tile_cost_step ar) (safe_array (d_tiles data)) (Fin 0) = Inr b"
    and "materials_total ar (nullish_or (d_showMaterials data) (JBool True))
           (safe_array (d_materials data)) = Inr c"
    and "adjustments_total ar (nullish_or (d_showAdjustments data) (JBool True))
           (d_adjustments data) = Inr e"
  shows "calculateTotals ar data settings = Inr (summary_of_sums ar data settings a b c e)"
  using assms unfolding calculateTotals_def summary_of_sums_def Let_def bind_err_def
  by (simp only: sum.case)


section \<open>Well-typed documents follow the pipeline\<close>





















section \<open>Visibility flags and defaults\<close>

lemma reduce_returns: "all_objects xs \<Longrightarrow> \<exists>y. reduce f xs a = Inr y"
proof (induction xs arbitrary: a)
  case Nil
  show ?case by simp
next
  case (Cons x xs)
  then show ?case by (cases x) (simp_all add: all_objects_def)
qed

lemma materials_total_returns:
  "all_objects xs \<Longrightarrow> \<exists>c. materials_total ar sh xs = Inr c \<and> (\<not> truthy sh \<longrightarrow> c = Fin 0)"
  using reduce_returns [of xs "material_cost_step ar" "Fin 0"] by (auto simp: materials_total_def)

lemma adjustments_total_returns:
  assumes "case adjs of Some (Arr xs) \<Rightarrow> all_objects xs | _ \<Rightarrow> True"
  shows "\<exists>e. adjustments_total ar sh adjs = Inr e \<and> (\<not> truthy sh \<or> adjs = None \<longrightarrow> e = Fin 0)"
proof (cases "\<exists>xs. adjs = Some (Arr xs)")
  case True
  then obtain xs where xs: "adjs = Some (Arr xs)" by blast
  with assms have "all_objects xs" by simp
  from reduce_returns [OF this, of "adjustment_step ar" "Fin 0"] xs show ?thesis
    by (auto simp: adjustments_total_def)
next
  case False
  then show ?thesis by (auto simp: adjustments_total_def split: option.splits jsarray.splits)
qed

text \<open>Without a null entry the four sums are computed and the summary is returned.\<close>

lemma calculateTotals_returns:
  assumes "entries_are_objects d"
  shows "\<exists>a b c e. calculateTotals ar d s = Inr (summary_of_sums ar d s a b c e)
           \<and> (\<not> truthy (nullish_or (d_showMaterials d) (JBool True)) \<longrightarrow> c = Fin 0)
           \<and> (\<not> truthy (nullish_or (d_showAdjustments d) (JBool True)) \<or> d_adjustments d = None
                \<longrightarrow> e = Fin 0)"
proof -
  from assms have t: "all_objects (safe_array (d_tiles d))"
    and m: "all_objects (safe_array (d_materials d))"
    and j: "case d_adjustments d of Some (Arr xs) \<Rightarrow> all_objects xs | _ \<Rightarrow> True"
    by (simp_all add: entries_are_objects_def)
  from reduce_returns [OF t] obtain a
    where a: "reduce (tile_sqm_step ar) (safe_array (d_tiles d)) (Fin 0) = Inr a" by blast
  from reduce_returns [OF t] obtain b
    where b: "reduce (tile_cost_step ar) (safe_array (d_tiles d)) (Fin 0) = Inr b" by blast
  from materials_total_returns [OF m] obtain c
    where c: "materials_total ar (nullish_or (d_showMaterials d) (JBool True))
                (safe_array (d_materials d)) = Inr c"
      and c0: "\<not> truthy (nullish_or (d_showMaterials d) (JBool True)) \<longrightarrow> c = Fin 0"
    by blast
  from adjustments_total_returns [OF j] obtain e
    where e: "adjustments_total ar (nullish_or (d_showAdjustments d) (JBool True))
                (d_adjustments d) = Inr e"
      and e0: "\<not> truthy (nullish_or (d_showAdjustments d) (JBool True)) \<or> d_adjustments d = None
                 \<longrightarrow> e = Fin 0"
    by blast
  from calculateTotals_sums [OF a b c e] c0 e0 show ?thesis
    by (intro exI [of _ a] exI [of _ b] exI [of _ c] exI [of _ e] conjI) assumption+
qed

text \<open>The results of the operations are their own roundings, and adding 0 returns them.\<close>

lemma representable_rounded: "representable ar (rounded ar x)"
  by (cases "rounded ar x") (simp_all add: representable_def rounded_stable)

lemma representable_inf_signed: "representable ar (inf_signed x)"
  by (simp add: inf_signed_def representable_def)

lemma representable_js_add: "representable ar (js_add ar a b)"
  by (cases a; cases b) (simp_all add: representable_rounded, simp_all add: representable_def)

lemma representable_js_mul: "representable ar (js_mul ar a b)"
  by (cases a; cases b)
     (simp_all add: representable_rounded representable_inf_signed, simp_all add: representable_def)

lemma representable_workmanship_cost: "representable ar (workmanship_cost ar sh a r)"
  by (simp add: workmanship_cost_def representable_js_mul) (simp add: representable_def)

lemma js_add_zero: "representable ar x \<Longrightarrow> js_add ar x (Fin 0) = x"
  by (cases x) (simp_all add: representable_def)

lemma summary_of_sums_fields:
  "totalMaterialCost (summary_of_sums ar d s a b c e) = c"
  "totalAdjustments (summary_of_sums ar d s a b c e) = e"
  "workmanshipCost (summary_of_sums ar d s a b c e)
     = workmanship_cost ar (flag_or (d_showWorkmanship d) (JBool True)) a (d_workmanshipRate d)"
  "workmanshipAndMaintenance (summary_of_sums ar d s a b c e)
     = js_add ar (workmanshipCost (summary_of_sums ar d s a b c e))
         (maintenance_term ar (flag_or (d_showMaintenance d) (s_showMaintenance s))
            (d_maintenance d))"
  "taxAmount (summary_of_sums ar d s a b c e)
     = tax_amount ar (flag_or (d_showTax d) (s_showTax s))
         (js_add ar (subtotal (summary_of_sums ar d s a b c e)) e) (s_taxPercentage s)"
  "grandTotal (summary_of_sums ar d s a b c e)
     = js_add ar (js_add ar (subtotal (summary_of_sums ar d s a b c e)) e)
         (taxAmount (summary_of_sums ar d s a b c e))"
  "depositAmount (summary_of_sums ar d s a b c e)
     = deposit_amount ar (d_depositPercentage d) (grandTotal (summary_of_sums ar d s a b c e))"
  unfolding summary_of_sums_def Let_def by (simp_all only: summary.select_convs)

lemma hidden_terms:
  "d_showMaterials d = JBool False
     \<Longrightarrow> \<not> truthy (nullish_or (d_showMaterials d) (JBool True))"
  "d_showAdjustments d = JBool False
     \<Longrightarrow> \<not> truthy (nullish_or (d_showAdjustments d) (JBool True))"
  "d_showWorkmanship d = Some (JBool False)
     \<Longrightarrow> workmanship_cost ar (flag_or (d_showWorkmanship d) (JBool True)) a r = Fin 0"
  "sm = JBool False \<Longrightarrow> maintenance_term ar sm m = Fin 0"
  "st = JBool False \<Longrightarrow> tax_amount ar st p t = Fin 0"
  by (simp_all add: workmanship_cost_def maintenance_term_def tax_amount_def flag_or_def)

lemma visibility_zero:
  assumes "entries_are_objects d"
  shows "\<exists>sm. calculateTotals ar d s = Inr sm
           \<and> (d_showMaterials d = JBool False \<longrightarrow> totalMaterialCost sm = Fin 0)
           \<and> (d_showAdjustments d = JBool False \<longrightarrow> totalAdjustments sm = Fin 0)
           \<and> (d_showWorkmanship d = Some (JBool False) \<longrightarrow> workmanshipCost sm = Fin 0)
           \<and> (flag_or (d_showMaintenance d) (s_showMaintenance s) = JBool False
                \<longrightarrow> workmanshipAndMaintenance sm = workmanshipCost sm)
           \<and> (flag_or (d_showTax d) (s_showTax s) = JBool False
                \<longrightarrow> taxAmount sm = Fin 0
                    \<and> grandTotal sm = js_add ar (subtotal sm) (totalAdjustments sm))"
proof -
  from calculateTotals_returns [OF assms, of ar s] obtain a b c e
    where r: "calculateTotals ar d s = Inr (summary_of_sums ar d s a b c e)"
      and c0: "\<not> truthy (nullish_or (d_showMaterials d) (JBool True)) \<longrightarrow> c = Fin 0"
      and e0: "\<not> truthy (nullish_or (d_showAdjustments d) (JBool True)) \<or> d_adjustments d = None
                 \<longrightarrow> e = Fin 0"
    by auto
  let ?sm = "summary_of_sums ar d s a b c e"
  have 1: "d_showMaterials d = JBool False \<longrightarrow> totalMaterialCost ?sm = Fin 0"
    using c0 by (simp add: summary_of_sums_fields(1) hidden_terms(1))
  have 2: "d_showAdjustments d = JBool False \<longrightarrow> totalAdjustments ?sm = Fin 0"
    using e0 by (simp add: summary_of_sums_fields(2) hidden_terms(2))
  have 3: "d_showWorkmanship d = Some (JBool False) \<longrightarrow> workmanshipCost ?sm = Fin 0"
    by (simp add: summary_of_sums_fields(3) workmanship_cost_def flag_or_def)
  have 4: "flag_or (d_showMaintenance d) (s_showMaintenance s) = JBool False
             \<longrightarrow> workmanshipAndMaintenance ?sm = workmanshipCost ?sm"
    by (simp add: summary_of_sums_fields(4,3) hidden_terms(4) js_add_zero
        representable_workmanship_cost)
  have 5: "flag_or (d_showTax d) (s_showTax s) = JBool False
             \<longrightarrow> taxAmount ?sm = Fin 0
                 \<and> grandTotal ?sm = js_add ar (subtotal ?sm) (totalAdjustments ?sm)"
    by (simp add: summary_of_sums_fields(5,6,2) hidden_terms(5) js_add_zero
        representable_js_add)
  from r 1 2 3 4 5 show ?thesis
    by (intro exI [of _ ?sm] conjI) assumption+
qed

text \<open>
  Claim C3. For a document without null entries: when \<open>showMaterials\<close>,
  \<open>showAdjustments\<close>, \<open>showWorkmanship\<close>, \<open>showMaintenance\<close> or \<open>showTax\<close> is false,
  \<open>totalMaterialCost\<close>, \<open>totalAdjustments\<close>, \<open>workmanshipCost\<close>, the maintenance term
  (so that \<open>workmanshipAndMaintenance\<close> is \<open>workmanshipCost\<close>) or \<open>taxAmount\<close> is exactly
  0; and setting a hidden flag back to true gives the result of the document in which the
  flag is true, whatever it was in between.
\<close>

theorem visibility_zeroing:
  "(entries_are_objects d \<longrightarrow>
      (\<exists>sm. calculateTotals ar d s = Inr sm
           \<and> (d_showMaterials d = JBool False \<longrightarrow> totalMaterialCost sm = Fin 0)
           \<and> (d_showAdjustments d = JBool False \<longrightarrow> totalAdjustments sm = Fin 0)
           \<and> (d_showWorkmanship d = Some (JBool False) \<longrightarrow> workmanshipCost sm = Fin 0)
           \<and> (flag_or (d_showMaintenance d) (s_showMaintenance s) = JBool False
                \<longrightarrow> workmanshipAndMaintenance sm = workmanshipCost sm)
           \<and> (flag_or (d_showTax d) (s_showTax s) = JBool False
                \<longrightarrow> taxAmount sm = Fin 0
                    \<and> grandTotal sm = js_add ar (subtotal sm) (totalAdjustments sm))))
   \<and> calculateTotals ar (d\<lparr>d_showMaterials := JBool False\<rparr>\<lparr>d_showMaterials := JBool True\<rparr>) s
       = calculateTotals ar (d\<lparr>d_showMaterials := JBool True\<rparr>) s
   \<and> calculateTotals ar (d\<lparr>d_showAdjustments := JBool False\<rparr>\<lparr>d_showAdjustments := JBool True\<rparr>) s
       = calculateTotals ar (d\<lparr>d_showAdjustments := JBool True\<rparr>) s
   \<and> calculateTotals ar
         (d\<lparr>d_showWorkmanship := Some (JBool False)\<rparr>\<lparr>d_showWorkmanship := Some (JBool True)\<rparr>) s
       = calculateTotals ar (d\<lparr>d_showWorkmanship := Some (JBool True)\<rparr>) s
   \<and> calculateTotals ar
         (d\<lparr>d_showMaintenance := Some (JBool False)\<rparr>\<lparr>d_showMaintenance := Some (JBool True)\<rparr>) s
       = calculateTotals ar (d\<lparr>d_showMaintenance := Some (JBool True)\<rparr>) s
   \<and> calculateTotals ar (d\<lparr>d_showTax := Some (JBool False)\<rparr>\<lparr>d_showTax := Some (JBool True)\<rparr>) s
       = calculateTotals ar (d\<lparr>d_showTax := Some (JBool True)\<rparr>) s"
proof (intro conjI impI)
  assume "entries_are_objects d"
  then show "\<exists>sm. calculateTotals ar d s = Inr sm
           \<and> (d_showMaterials d = JBool False \<longrightarrow> totalMaterialCost sm = Fin 0)
           \<and> (d_showAdjustments d = JBool False \<longrightarrow> totalAdjustments sm = Fin 0)
           \<and> (d_showWorkmanship d = Some (JBool False) \<longrightarrow> workmanshipCost sm = Fin 0)
           \<and> (flag_or (d_showMaintenance d) (s_showMaintenance s) = JBool False
                \<longrightarrow> workmanshipAndMaintenance sm = workmanshipCost sm)
           \<and> (flag_or (d_showTax d) (s_showTax s) = JBool False
                \<longrightarrow> taxAmount sm = Fin 0
                    \<and> grandTotal sm = js_add ar (subtotal sm) (totalAdjustments sm))"
    by (rule visibility_zero)
qed simp_all

theorem visibility_zeroing_witness:
  "entries_are_objects hidden_quotation
   \<and> d_showMaterials hidden_quotation = JBool False
   \<and> d_showAdjustments hidden_quotation = JBool False
   \<and> d_showWorkmanship hidden_quotation = Some (JBool False)
   \<and> flag_or (d_showMaintenance hidden_quotation)
         (s_showMaintenance (settings_object Binary64 DEFAULT_SETTINGS)) = JBool False
   \<and> flag_or (d_showTax hidden_quotation) (s_showTax (settings_object Binary64 DEFAULT_SETTINGS))
       = JBool False
   \<and> (\<exists>sm. calculateTotals Binary64 hidden_quotation (settings_object Binary64 DEFAULT_SETTINGS) = Inr sm
          \<and> totalMaterialCost sm = Fin 0 \<and> totalAdjustments sm = Fin 0
          \<and> workmanshipCost sm = Fin 0 \<and> workmanshipAndMaintenance sm = workmanshipCost sm
          \<and> taxAmount sm = Fin 0)
   \<and> calculateTotals Binary64 hidden_quotation (settings_object Binary64 DEFAULT_SETTINGS)
     = Inr \<lparr> totalSqm = Fin 95, totalTileCost = Fin 358400, totalMaterialCost = Fin 0,
             workmanshipCost = Fin 0, workmanshipAndMaintenance = Fin 0,
             profitAmount = Fin 35840, subtotal = Fin 394240, totalAdjustments = Fin 0,
             taxAmount = Fin 0, grandTotal = Fin 394240, depositAmount = Fin 197120 \<rparr>
   \<and> calculateTotals Binary64
       (hidden_quotation\<lparr>d_showTax := Some (JBool False)\<rparr>\<lparr>d_showTax := Some (JBool True)\<rparr>)
       (settings_object Binary64 DEFAULT_SETTINGS)
     = calculateTotals Binary64 (hidden_quotation\<lparr>d_showTax := Some (JBool True)\<rparr>)
         (settings_object Binary64 DEFAULT_SETTINGS)"
proof -
  let ?S = "settings_object Binary64 DEFAULT_SETTINGS"
  have 1: "entries_are_objects hidden_quotation"
    by (simp add: entries_are_objects_def all_objects_def hidden_quotation_def
        sample_quotation_def)
  have f: "d_showMaterials hidden_quotation = JBool False"
    "d_showAdjustments hidden_quotation = JBool False"
    "d_showWorkmanship hidden_quotation = Some (JBool False)"
    "flag_or (d_showMaintenance hidden_quotation) (s_showMaintenance ?S) = JBool False"
    "flag_or (d_showTax hidden_quotation) (s_showTax ?S) = JBool False"
    by (simp_all add: hidden_quotation_def flag_or_def)
  from visibility_zeroing [where d = hidden_quotation and s = ?S and ar = Binary64, THEN conjunct1, THEN mp, OF 1]
  obtain sm where sm: "calculateTotals Binary64 hidden_quotation ?S = Inr sm"
    and z: "d_showMaterials hidden_quotation = JBool False \<longrightarrow> totalMaterialCost sm = Fin 0"
      "d_showAdjustments hidden_quotation = JBool False \<longrightarrow> totalAdjustments sm = Fin 0"
      "d_showWorkmanship hidden_quotation = Some (JBool False) \<longrightarrow> workmanshipCost sm = Fin 0"
      "flag_or (d_showMaintenance hidden_quotation) (s_showMaintenance ?S) = JBool False
         \<longrightarrow> workmanshipAndMaintenance sm = workmanshipCost sm"
      "flag_or (d_showTax hidden_quotation) (s_showTax ?S) = JBool False
         \<longrightarrow> taxAmount sm = Fin 0 \<and> grandTotal sm = js_add Binary64 (subtotal sm) (totalAdjustments sm)"
    by (elim exE conjE)
  from z f have "totalMaterialCost sm = Fin 0" "totalAdjustments sm = Fin 0"
    "workmanshipCost sm = Fin 0" "workmanshipAndMaintenance sm = workmanshipCost sm"
    "taxAmount sm = Fin 0"
    by simp_all
  with sm have 4: "\<exists>sm. calculateTotals Binary64 hidden_quotation ?S = Inr sm
          \<and> totalMaterialCost sm = Fin 0 \<and> totalAdjustments sm = Fin 0
          \<and> workmanshipCost sm = Fin 0 \<and> workmanshipAndMaintenance sm = workmanshipCost sm
          \<and> taxAmount sm = Fin 0"
    by (intro exI [of _ sm] conjI)
  have p: "binary64 (630503947831869475 / 17592186044416) = Fin 35840"
    by (rule binary64_eval [where e = "- 37" and m = 4925812092436480])
       (simp_all add: round_even_def)
  have 2: "calculateTotals Binary64 hidden_quotation ?S
           = Inr \<lparr> totalSqm = Fin 95, totalTileCost = Fin 358400, totalMaterialCost = Fin 0,
             workmanshipCost = Fin 0, workmanshipAndMaintenance = Fin 0,
             profitAmount = Fin 35840, subtotal = Fin 394240, totalAdjustments = Fin 0,
             taxAmount = Fin 0, grandTotal = Fin 394240, depositAmount = Fin 197120 \<rparr>"
    by (simp add: calculateTotals_def hidden_quotation_def sample_quotation_def
        sample_tile_def settings_object_def DEFAULT_SETTINGS_def Let_def bind_err_def
        flag_or_def tile_sqm_step_def tile_cost_step_def materials_total_def
        adjustments_total_def workmanship_cost_def maintenance_term_def profit_amount_def
        tax_amount_def deposit_amount_def number_or_zero_def num_or_def
        binary64_numeral binary64_tenth binary64_half p)
  have 3: "calculateTotals Binary64
       (hidden_quotation\<lparr>d_showTax := Some (JBool False)\<rparr>\<lparr>d_showTax := Some (JBool True)\<rparr>) ?S
     = calculateTotals Binary64 (hidden_quotation\<lparr>d_showTax := Some (JBool True)\<rparr>) ?S"
    by (rule visibility_zeroing
        [THEN conjunct2, THEN conjunct2, THEN conjunct2, THEN conjunct2, THEN conjunct2])
  from 1 f 4 2 3 show ?thesis by (intro conjI)
qed

section \<open>Defaults of absent fields\<close>

lemma default_showMaterials:
  "d_showMaterials d = JUndefined
   \<Longrightarrow> calculateTotals ar d s = calculateTotals ar (d\<lparr>d_showMaterials := JBool True\<rparr>) s"
  by (simp add: calculateTotals_def)

lemma default_showAdjustments:
  "d_showAdjustments d = JUndefined
   \<Longrightarrow> calculateTotals ar d s = calculateTotals ar (d\<lparr>d_showAdjustments := JBool True\<rparr>) s"
  by (simp add: calculateTotals_def)

lemma settings_defaults_unused:
  "calculateTotals ar d (s\<lparr>s_showMaterialsDefault := x, s_showAdjustmentsDefault := y\<rparr>)
     = calculateTotals ar d s"
  by (simp add: calculateTotals_def)

lemma default_showTax:
  "d_showTax d = None
   \<Longrightarrow> calculateTotals ar d s = calculateTotals ar (d\<lparr>d_showTax := Some (s_showTax s)\<rparr>) s"
  by (simp add: calculateTotals_def flag_or_def)

lemma default_showMaintenance:
  "d_showMaintenance d = None
   \<Longrightarrow> calculateTotals ar d s
       = calculateTotals ar (d\<lparr>d_showMaintenance := Some (s_showMaintenance s)\<rparr>) s"
  by (simp add: calculateTotals_def flag_or_def)

lemma default_showWorkmanship:
  "d_showWorkmanship d = None
   \<Longrightarrow> calculateTotals ar d s = calculateTotals ar (d\<lparr>d_showWorkmanship := Some (JBool True)\<rparr>) s"
  by (simp add: calculateTotals_def flag_or_def)

lemma absent_deposit_adjustments:
  assumes "entries_are_objects d"
  shows "\<exists>sm. calculateTotals ar d s = Inr sm
           \<and> (d_depositPercentage d = None \<longrightarrow> depositAmount sm = Fin 0)
           \<and> (d_adjustments d = None \<longrightarrow> totalAdjustments sm = Fin 0)"
proof -
  from calculateTotals_returns [OF assms, of ar s] obtain a b c e
    where r: "calculateTotals ar d s = Inr (summary_of_sums ar d s a b c e)"
      and e0: "\<not> truthy (nullish_or (d_showAdjustments d) (JBool True)) \<or> d_adjustments d = None
                 \<longrightarrow> e = Fin 0"
    by auto
  let ?sm = "summary_of_sums ar d s a b c e"
  have 1: "d_depositPercentage d = None \<longrightarrow> depositAmount ?sm = Fin 0"
    by (simp add: summary_of_sums_fields(7) deposit_amount_def)
  have 2: "d_adjustments d = None \<longrightarrow> totalAdjustments ?sm = Fin 0"
    using e0 by (simp add: summary_of_sums_fields(2))
  from r 1 2 show ?thesis
    by (intro exI [of _ ?sm] conjI) assumption+
qed

lemma invoice_entries: "entries_are_objects (invoice_object ar v)"
  by (simp add: entries_are_objects_def all_objects_def invoice_object_def list_all_iff)

lemma invoice_no_deposit:
  "\<exists>sm. calculateTotals ar (invoice_object ar v) s = Inr sm
      \<and> depositAmount sm = Fin 0 \<and> totalAdjustments sm = Fin 0"
proof -
  have "d_depositPercentage (invoice_object ar v) = None" "d_adjustments (invoice_object ar v) = None"
    by (simp_all add: invoice_object_def)
  with absent_deposit_adjustments [OF invoice_entries [of ar v], of ar s] show ?thesis by simp
qed

text \<open>
  Claim C9. A document whose \<open>showMaterials\<close> or \<open>showAdjustments\<close> is absent is computed
  as with the flag true, and the settings fields \<open>showMaterialsDefault\<close> and
  \<open>showAdjustmentsDefault\<close> have no influence; an absent \<open>showTax\<close> or \<open>showMaintenance\<close>
  is computed as with the flag of the settings, an absent \<open>showWorkmanship\<close> as with true;
  a document without \<open>depositPercentage\<close> has the deposit 0 and one without \<open>adjustments\<close>
  has the adjustments 0, which is the case of every invoice.
\<close>

theorem calculateTotals_defaults:
  "(d_showMaterials d = JUndefined
      \<longrightarrow> calculateTotals ar d s = calculateTotals ar (d\<lparr>d_showMaterials := JBool True\<rparr>) s)
   \<and> (d_showAdjustments d = JUndefined
      \<longrightarrow> calculateTotals ar d s = calculateTotals ar (d\<lparr>d_showAdjustments := JBool True\<rparr>) s)
   \<and> calculateTotals ar d (s\<lparr>s_showMaterialsDefault := x, s_showAdjustmentsDefault := y\<rparr>)
       = calculateTotals ar d s
   \<and> (d_showTax d = None
      \<longrightarrow> calculateTotals ar d s = calculateTotals ar (d\<lparr>d_showTax := Some (s_showTax s)\<rparr>) s)
   \<and> (d_showMaintenance d = None
      \<longrightarrow> calculateTotals ar d s
          = calculateTotals ar (d\<lparr>d_showMaintenance := Some (s_showMaintenance s)\<rparr>) s)
   \<and> (d_showWorkmanship d = None
      \<longrightarrow> calculateTotals ar d s
          = calculateTotals ar (d\<lparr>d_showWorkmanship := Some (JBool True)\<rparr>) s)
   \<and> (entries_are_objects d
      \<longrightarrow> (\<exists>sm. calculateTotals ar d s = Inr sm
               \<and> (d_depositPercentage d = None \<longrightarrow> depositAmount sm = Fin 0)
               \<and> (d_adjustments d = None \<longrightarrow> totalAdjustments sm = Fin 0)))
   \<and> (\<exists>sm. calculateTotals ar (invoice_object ar v) s = Inr sm
          \<and> depositAmount sm = Fin 0 \<and> totalAdjustments sm = Fin 0)"
  by (intro conjI impI default_showMaterials default_showAdjustments settings_defaults_unused
      default_showTax default_showMaintenance default_showWorkmanship
      absent_deposit_adjustments invoice_no_deposit)

text \<open>
  The sample invoice has none of the optional fields; with the default settings (tax
  hidden, maintenance shown) it is computed as the document that spells the defaults out.
\<close>

theorem calculateTotals_defaults_witness:
  "d_showMaterials (invoice_object Binary64 sample_invoice) = JUndefined
   \<and> d_showAdjustments (invoice_object Binary64 sample_invoice) = JUndefined
   \<and> d_showTax (invoice_object Binary64 sample_invoice) = None
   \<and> d_showMaintenance (invoice_object Binary64 sample_invoice) = None
   \<and> d_showWorkmanship (invoice_object Binary64 sample_invoice) = None
   \<and> d_depositPercentage (invoice_object Binary64 sample_invoice) = None
   \<and> d_adjustments (invoice_object Binary64 sample_invoice) = None
   \<and> entries_are_objects (invoice_object Binary64 sample_invoice)
   \<and> calculateTotals Binary64 (invoice_object Binary64 sample_invoice) (settings_object Binary64 DEFAULT_SETTINGS)
     = calculateTotals Binary64
         ((invoice_object Binary64 sample_invoice)\<lparr>d_showTax := Some (JBool False)\<rparr>)
         (settings_object Binary64 DEFAULT_SETTINGS)
   \<and> calculateTotals Binary64 (invoice_object Binary64 sample_invoice) (settings_object Binary64 DEFAULT_SETTINGS)
     = calculateTotals Binary64
         ((invoice_object Binary64 sample_invoice)\<lparr>d_showWorkmanship := Some (JBool True)\<rparr>)
         (settings_object Binary64 DEFAULT_SETTINGS)
   \<and> calculateTotals Binary64 (invoice_object Binary64 sample_invoice) (settings_object Binary64 DEFAULT_SETTINGS)
     = calculateTotals Binary64
         ((invoice_object Binary64 sample_invoice)\<lparr>d_showMaterials := JBool True\<rparr>)
         (settings_object Binary64 DEFAULT_SETTINGS)
   \<and> (\<exists>sm. calculateTotals Binary64 (invoice_object Binary64 sample_invoice)
              (settings_object Binary64 DEFAULT_SETTINGS) = Inr sm
          \<and> depositAmount sm = Fin 0 \<and> totalAdjustments sm = Fin 0)"
proof -
  let ?d = "invoice_object Binary64 sample_invoice" and ?s = "settings_object Binary64 DEFAULT_SETTINGS"
  have f: "d_showMaterials ?d = JUndefined" "d_showAdjustments ?d = JUndefined"
    "d_showTax ?d = None" "d_showMaintenance ?d = None" "d_showWorkmanship ?d = None"
    "d_depositPercentage ?d = None" "d_adjustments ?d = None"
    by (simp_all add: invoice_object_def sample_invoice_def opt_flag_def)
  have e: "entries_are_objects ?d"
    by (simp add: entries_are_objects_def all_objects_def invoice_object_def sample_invoice_def)
  have st: "s_showTax ?s = JBool False"
    by (simp add: settings_object_def DEFAULT_SETTINGS_def)
  note t = calculateTotals_defaults [where d = ?d and s = ?s and ar = Binary64]
  have 1: "calculateTotals Binary64 ?d ?s = calculateTotals Binary64 (?d\<lparr>d_showTax := Some (JBool False)\<rparr>) ?s"
    using t [THEN conjunct2, THEN conjunct2, THEN conjunct2, THEN conjunct1, THEN mp, OF f(3)]
    unfolding st .
  have 2: "calculateTotals Binary64 ?d ?s = calculateTotals Binary64 (?d\<lparr>d_showWorkmanship := Some (JBool True)\<rparr>) ?s"
    by (rule t [THEN conjunct2, THEN conjunct2, THEN conjunct2, THEN conjunct2, THEN conjunct2,
          THEN conjunct1, THEN mp, OF f(5)])
  have 3: "calculateTotals Binary64 ?d ?s = calculateTotals Binary64 (?d\<lparr>d_showMaterials := JBool True\<rparr>) ?s"
    by (rule t [THEN conjunct1, THEN mp, OF f(1)])
  from t [THEN conjunct2, THEN conjunct2, THEN conjunct2, THEN conjunct2, THEN conjunct2,
      THEN conjunct2, THEN conjunct1, THEN mp, OF e]
  obtain sm where sm: "calculateTotals Binary64 ?d ?s = Inr sm"
    and z: "d_depositPercentage ?d = None \<longrightarrow> depositAmount sm = Fin 0"
      "d_adjustments ?d = None \<longrightarrow> totalAdjustments sm = Fin 0"
    by (elim exE conjE)
  from z f(6,7) have "depositAmount sm = Fin 0" "totalAdjustments sm = Fin 0" by simp_all
  with sm have 4: "\<exists>sm. calculateTotals Binary64 ?d ?s = Inr sm
          \<and> depositAmount sm = Fin 0 \<and> totalAdjustments sm = Fin 0"
    by (intro exI [of _ sm] conjI)
  from f e 1 2 3 4 show ?thesis by (intro conjI)
qed

section \<open>The tile editor: reconciliation of area and cartons\<close>

lemmas parse_defs = parseFloat_def stringToNumber_def trim_def is_ws_def parse_decimal_def
  parse_unsigned_def parse_exponent_def is_digit_def digits_val_def pow10_def

lemmas coverage_defs = getCoverageRate_def category_string_def bind_err_def toLowerCase_def
  is_upper_def trim_def is_ws_def char_of_eq_iff

text \<open>At an index that holds a tile the handler stores the edited copy there.\<close>

lemma handleTileChange_at:
  assumes "i < length tiles" and "tiles ! i = Some t"
  shows "handleTileChange ar st tiles i f v
           = bind_err (handleTileChange_body ar st t f v) (\<lambda>t'. Inr (tiles[i := Some t']))"
  using assms by (simp add: handleTileChange_def)

lemma positive_number_Fin: "positive_number (Fin x) = (0 < x)"
  by (simp add: positive_number_def)

lemma body_Sqm:
  assumes "getCoverageRate st (t_category t) = Inr rate" and "num_of_input ar v = Fin x" and "0 < x"
  shows "handleTileChange_body ar st t Sqm v
           = Inr (t\<lparr>t_sqm := v, t_cartons := JNum (js_ceil (js_div ar (Fin x) rate))\<rparr>)"
  using assms by (simp add: handleTileChange_body_def bind_err_def positive_number_Fin)


lemma ceil_div_Fin:
  "0 < r \<Longrightarrow> js_ceil (js_div Exact (Fin x) (Fin r)) = Fin (of_int \<lceil>x / r\<rceil>)"
  by simp

text \<open>The ceiling of a quotient by a positive rate, in terms of products.\<close>

lemma ceiling_quotient_bounds:
  fixes x r :: real
  assumes "0 < r"
  shows "x \<le> of_int \<lceil>x / r\<rceil> * r" and "(of_int \<lceil>x / r\<rceil> - 1) * r < x"
proof -
  have "x / r \<le> of_int \<lceil>x / r\<rceil>" by (rule le_of_int_ceiling)
  then have "x / r * r \<le> of_int \<lceil>x / r\<rceil> * r"
    using assms by (intro mult_right_mono) simp_all
  with assms show "x \<le> of_int \<lceil>x / r\<rceil> * r" by simp
  have "of_int \<lceil>x / r\<rceil> - 1 < x / r" using ceiling_correct [of "x / r"] by (rule conjunct1)
  then have "(of_int \<lceil>x / r\<rceil> - 1) * r < x / r * r"
    using assms by (intro mult_strict_right_mono) simp_all
  with assms show "(of_int \<lceil>x / r\<rceil> - 1) * r < x" by simp
qed

lemma ceiling_quotient_eq:
  fixes s r :: real
  assumes "0 < r" and "(of_int c - 1) * r < s" and "s \<le> of_int c * r"
  shows "\<lceil>s / r\<rceil> = c"
proof (rule ceiling_unique)
  from assms show "of_int c - 1 < s / r" by (simp add: pos_less_divide_eq)
  from assms show "s / r \<le> of_int c" by (simp add: pos_divide_le_eq)
qed

section \<open>Cartons from the area\<close>

text \<open>
  An edit of the sqm box stores the value and sets the cartons to the ceiling of the
  quotient that the arithmetic returns; an edit of the category does so with the sqm the
  tile holds and the rate of the new category.
\<close>

lemma sqm_driven_cartons_computed:
  assumes "i < length tiles" and "tiles ! i = Some t"
    and "getCoverageRate st (t_category t) = Inr rate"
    and "num_of_input ar v = Fin x" and "0 < x"
  shows "handleTileChange ar st tiles i Sqm v
           = Inr (tiles[i := Some (t\<lparr>t_sqm := v,
                                      t_cartons := JNum (js_ceil (js_div ar (Fin x) rate))\<rparr>)])"
  using assms by (simp only: handleTileChange_at body_Sqm bind_err_def sum.case)

lemma category_driven_cartons:
  assumes "i < length tiles" and "tiles ! i = Some t"
    and "getCoverageRate st v = Inr rate"
    and "num_of_input ar (t_sqm t) = Fin x" and "0 < x"
  shows "handleTileChange ar st tiles i Category v
           = Inr (tiles[i := Some (t\<lparr>t_category := v,
                                      t_cartons := JNum (js_ceil (js_div ar (Fin x) rate))\<rparr>)])"
  using assms
  by (simp add: handleTileChange_at handleTileChange_body_def bind_err_def positive_number_Fin)

text \<open>
  With the arithmetic of the reals the cartons are the ceiling of \<open>x / r\<close>: that number
  of cartons covers \<open>x\<close>, one carton less does not, it is positive, and when \<open>x / r\<close> is
  an integer it is that integer.
\<close>

lemma sqm_driven_cartons_exact:
  assumes "i < length tiles" and "tiles ! i = Some t"
    and "getCoverageRate st (t_category t) = Inr (Fin r)" and "0 < r"
    and "num_of_input Exact v = Fin x" and "0 < x"
  shows "handleTileChange Exact st tiles i Sqm v
           = Inr (tiles[i := Some (t\<lparr>t_sqm := v, t_cartons := JNum (Fin (of_int \<lceil>x / r\<rceil>))\<rparr>)])
         \<and> x \<le> of_int \<lceil>x / r\<rceil> * r
         \<and> (of_int \<lceil>x / r\<rceil> - 1) * r < x
         \<and> 0 < \<lceil>x / r\<rceil>
         \<and> (\<forall>n::int. x / r = of_int n \<longrightarrow> \<lceil>x / r\<rceil> = n)"
proof (intro conjI allI impI)
  show "handleTileChange Exact st tiles i Sqm v
          = Inr (tiles[i := Some (t\<lparr>t_sqm := v, t_cartons := JNum (Fin (of_int \<lceil>x / r\<rceil>))\<rparr>)])"
    using assms
    by (simp only: handleTileChange_at body_Sqm ceil_div_Fin bind_err_def sum.case)
  show "x \<le> of_int \<lceil>x / r\<rceil> * r" using \<open>0 < r\<close> by (rule ceiling_quotient_bounds)
  show "(of_int \<lceil>x / r\<rceil> - 1) * r < x" using \<open>0 < r\<close> by (rule ceiling_quotient_bounds)
  from \<open>0 < r\<close> \<open>0 < x\<close> have "0 < x / r" by simp
  then show "0 < \<lceil>x / r\<rceil>" by simp
  fix n :: int
  assume "x / r = of_int n"
  then show "\<lceil>x / r\<rceil> = n" by simp
qed

text \<open>The numbers 4.32 and 1.44 in binary64, their quotient and the product 3 * 1.44.\<close>

lemma binary64_4_32: "binary64 (108 / 25) = Fin (607985949695017 / 140737488355328)"
  by (rule binary64_eval [where e = "- 50" and m = 4863887597560136])
     (simp_all add: round_even_def)

lemma binary64_1_44: "binary64 (36 / 25) = Fin (3242591731706757 / 2251799813685248)"
  by (rule binary64_eval [where e = "- 52" and m = 6485183463413514])
     (simp_all add: round_even_def)

lemma binary64_4_32_by_1_44:
  "binary64 (607985949695017 / 140737488355328 / (3242591731706757 / 2251799813685248))
     = Fin (6755399441055745 / 2251799813685248)"
  by (rule binary64_eval [where e = "- 51" and m = 6755399441055745])
     (simp_all add: round_even_def)

lemma binary64_3_times_1_44:
  "binary64 (3 * (3242591731706757 / 2251799813685248))
     = Fin (607985949695017 / 140737488355328)"
  by (rule binary64_eval [where e = "- 50" and m = 4863887597560136])
     (simp_all add: round_even_def)

text \<open>
  Claim C4 at an area that is an exact multiple of the rate. With the kitchen-wall rate
  set to 1.44, entering 4.32 in the sqm box of a kitchen-wall line gives 4 cartons, where
  4.32 / 1.44 is exactly 3: the binary64 quotient of the two numbers is a little above 3.
  Three cartons cover the area also in the arithmetic of the program, in which 3 * 1.44
  is the number 4.32; so \<open>(cartons - 1) * rate < sqm\<close> is false there. With the arithmetic
  of the reals the handler gives 3.
\<close>

theorem sqm_driven_cartons_exact_multiple:
  "handleTileChange Binary64 (rate_1_44_settings Binary64) [Some edited_tile] 0 Sqm (JStr ''4.32'')
     = Inr [Some (edited_tile\<lparr>t_sqm := JStr ''4.32'', t_cartons := JNum (Fin 4)\<rparr>)]
   \<and> getCoverageRate (rate_1_44_settings Binary64) (t_category edited_tile)
       = Inr (rounded Binary64 1.44)
   \<and> num_of_input Binary64 (JStr ''4.32'') = rounded Binary64 4.32
   \<and> (4.32 :: real) / 1.44 = 3
   \<and> js_div Binary64 (rounded Binary64 4.32) (rounded Binary64 1.44)
       = Fin (6755399441055745 / 2251799813685248)
   \<and> js_mul Binary64 (Fin (4 - 1)) (rounded Binary64 1.44) = rounded Binary64 4.32
   \<and> \<not> js_gt (rounded Binary64 4.32) (js_mul Binary64 (Fin (4 - 1)) (rounded Binary64 1.44))
   \<and> handleTileChange Exact (rate_1_44_settings Exact) [Some edited_tile] 0 Sqm (JStr ''4.32'')
       = Inr [Some (edited_tile\<lparr>t_sqm := JStr ''4.32'', t_cartons := JNum (Fin 3)\<rparr>)]"
proof -
  let ?S = "rate_1_44_settings Binary64" and ?E = "rate_1_44_settings Exact"
  have p: "0 < length [Some edited_tile]" "[Some edited_tile] ! 0 = Some edited_tile"
    by simp_all
  have rate: "getCoverageRate ?S (t_category edited_tile) = Inr (rounded Binary64 1.44)"
    by (simp add: edited_tile_def coverage_defs rate_1_44_settings_def settings_object_def
        DEFAULT_SETTINGS_def)
  have num: "num_of_input Binary64 (JStr ''4.32'') = rounded Binary64 4.32"
    by (simp add: num_of_input_def parse_defs)
  have r: "rounded Binary64 1.44 = Fin (3242591731706757 / 2251799813685248)"
    by (simp add: binary64_1_44)
  have a: "rounded Binary64 4.32 = Fin (607985949695017 / 140737488355328)"
    by (simp add: binary64_4_32)
  have q: "js_div Binary64 (rounded Binary64 4.32) (rounded Binary64 1.44)
             = Fin (6755399441055745 / 2251799813685248)"
    unfolding r a by (simp only: js_div.simps rounded.simps binary64_4_32_by_1_44) simp
  have c: "js_ceil (Fin (6755399441055745 / 2251799813685248)) = Fin 4" by simp
  have pos: "0 < (607985949695017 / 140737488355328 :: real)" by simp
  have 1: "handleTileChange Binary64 ?S [Some edited_tile] 0 Sqm (JStr ''4.32'')
             = Inr [Some (edited_tile\<lparr>t_sqm := JStr ''4.32'', t_cartons := JNum (Fin 4)\<rparr>)]"
    using sqm_driven_cartons_computed [OF p rate num [unfolded a] pos] q c
    unfolding a by simp
  have m: "js_mul Binary64 (Fin (4 - 1)) (rounded Binary64 1.44) = rounded Binary64 4.32"
    unfolding r a using binary64_3_times_1_44 by simp
  have g: "\<not> js_gt (rounded Binary64 4.32) (js_mul Binary64 (Fin (4 - 1)) (rounded Binary64 1.44))"
    unfolding m unfolding a by simp
  have rateE: "getCoverageRate ?E (t_category edited_tile) = Inr (Fin 1.44)"
    by (simp add: edited_tile_def coverage_defs rate_1_44_settings_def settings_object_def
        DEFAULT_SETTINGS_def)
  have numE: "num_of_input Exact (JStr ''4.32'') = Fin 4.32"
    by (simp add: num_of_input_def parse_defs)
  have 2: "handleTileChange Exact ?E [Some edited_tile] 0 Sqm (JStr ''4.32'')
             = Inr [Some (edited_tile\<lparr>t_sqm := JStr ''4.32'', t_cartons := JNum (Fin 3)\<rparr>)]"
    using sqm_driven_cartons_computed [OF p rateE numE] by simp
  have e: "(4.32 :: real) / 1.44 = 3" by simp
  from 1 rate num e q m g 2 show ?thesis by (intro conjI)
qed

section \<open>The coverage rate of a category\<close>

lemma startsWith_iff: "startsWith s p \<longleftrightarrow> (\<exists>r. s = p @ r)"
  by (induction s p rule: startsWith.induct) auto

lemma includes_str_iff: "includes_str s sub \<longleftrightarrow> (\<exists>a b. s = a @ sub @ b)"
proof (induction s)
  case Nil
  show ?case by auto
next
  case (Cons c cs)
  show ?case
  proof
    assume "includes_str (c # cs) sub"
    then consider "startsWith (c # cs) sub" | "includes_str cs sub" by auto
    then show "\<exists>a b. c # cs = a @ sub @ b"
    proof cases
      case 1
      then obtain r where "c # cs = sub @ r" by (auto simp: startsWith_iff)
      then have "c # cs = [] @ sub @ r" by simp
      then show ?thesis by blast
    next
      case 2
      with Cons.IH obtain a b where "cs = a @ sub @ b" by blast
      then have "c # cs = (c # a) @ sub @ b" by simp
      then show ?thesis by blast
    qed
  next
    assume "\<exists>a b. c # cs = a @ sub @ b"
    then obtain a b where ab: "c # cs = a @ sub @ b" by blast
    show "includes_str (c # cs) sub"
    proof (cases a)
      case Nil
      with ab have "startsWith (c # cs) sub" by (auto simp: startsWith_iff)
      then show ?thesis by simp
    next
      case (Cons x a')
      with ab have "cs = a' @ sub @ b" by simp
      with Cons.IH have "includes_str cs sub" by blast
      then show ?thesis by simp
    qed
  qed
qed

text \<open>Every string that contains "bathroom" contains "room".\<close>

lemma includes_bathroom_room:
  assumes "includes_str cat ''bathroom''"
  shows "includes_str cat ''room''"
proof -
  from assms obtain a b where "cat = a @ ''bathroom'' @ b" by (auto simp: includes_str_iff)
  then have "cat = (a @ ''bath'') @ ''room'' @ b" by simp
  then show ?thesis unfolding includes_str_iff by blast
qed

text \<open>
  The test for "room" of the second bucket comes before the third and fourth buckets, so
  their tests for "bathroom" with "wall" or "floor" never decide: a category that contains
  "bathroom" gets the sitting-room or the room rate.
\<close>

lemma bathroom_bucket_unreachable:
  assumes "includes_str (trim (toLowerCase s)) ''bathroom''"
  shows "getCoverageRate st (JStr s) = Inr (s_sittingRoomTileM2PerCarton st)
         \<or> getCoverageRate st (JStr s) = Inr (s_roomTileM2PerCarton st)"
proof -
  from assms have "includes_str (trim (toLowerCase s)) ''room''"
    by (rule includes_bathroom_room)
  moreover from assms have "s \<noteq> []"
    by (auto simp: toLowerCase_def trim_def)
  ultimately show ?thesis
    by (simp add: getCoverageRate_def category_string_def bind_err_def Let_def)
qed

text \<open>The fallback: a missing, empty or blank category gets the floor rate.\<close>

lemma toLowerCase_blank: "list_all is_ws s \<Longrightarrow> toLowerCase s = s"
  by (induction s) (auto simp: toLowerCase_def is_upper_def is_ws_def)

lemma trim_blank:
  assumes "list_all is_ws s"
  shows "trim s = []"
proof -
  from assms have d: "dropWhile is_ws s = []"
    by (induction s) simp_all
  show ?thesis unfolding trim_def d by simp
qed

lemma coverage_rate_fallback:
  "getCoverageRate st JUndefined = Inr (s_floorTileM2PerCarton st)"
  "getCoverageRate st JNull = Inr (s_floorTileM2PerCarton st)"
  "list_all is_ws s \<Longrightarrow> getCoverageRate st (JStr s) = Inr (s_floorTileM2PerCarton st)"
proof -
  show "getCoverageRate st JUndefined = Inr (s_floorTileM2PerCarton st)"
    by (simp add: getCoverageRate_def category_string_def bind_err_def toLowerCase_def trim_def)
  show "getCoverageRate st JNull = Inr (s_floorTileM2PerCarton st)"
    by (simp add: getCoverageRate_def category_string_def bind_err_def toLowerCase_def trim_def)
  assume "list_all is_ws s"
  then have "trim (toLowerCase s) = []" by (simp add: toLowerCase_blank trim_blank)
  then show "getCoverageRate st (JStr s) = Inr (s_floorTileM2PerCarton st)"
    by (cases "s = []") (simp_all add: getCoverageRate_def category_string_def bind_err_def)
qed

text \<open>
  A category with "kitchen" and "wall" never reaches the generic wall bucket: it gets the
  kitchen-wall rate unless one of the four earlier buckets matches.
\<close>

lemma kitchen_wall_before_wall:
  assumes "includes_str (trim (toLowerCase s)) ''kitchen''"
    and "includes_str (trim (toLowerCase s)) ''wall''"
  shows "getCoverageRate st (JStr s)
           \<in> {Inr (s_sittingRoomTileM2PerCarton st), Inr (s_roomTileM2PerCarton st),
              Inr (s_toiletWallTileM2PerCarton st), Inr (s_toiletFloorTileM2PerCarton st),
              Inr (s_kitchenWallTileM2PerCarton st)}"
proof -
  from assms(1) have "s \<noteq> []" by (auto simp: toLowerCase_def trim_def)
  with assms show ?thesis
    by (simp add: getCoverageRate_def category_string_def bind_err_def Let_def)
qed

text \<open>
  Claim C5 at the category "Bathroom Wall". The claim has the specific buckets tested
  before the generic ones, and the third bucket of the source names bathroom walls for
  the toilet-wall rate as it does toilet walls; but "bathroom" contains "room", and the
  handler returns the room rate. "Toilet Wall" and "Kitchen Wall" get their own rates, and
  a category that matches nothing the floor rate.
\<close>

theorem getCoverageRate_bathroom_wall:
  "getCoverageRate st (JStr ''Bathroom Wall'') = Inr (s_roomTileM2PerCarton st)
   \<and> getCoverageRate st (JStr ''Bathroom Floor'') = Inr (s_roomTileM2PerCarton st)
   \<and> getCoverageRate st (JStr ''Toilet Wall'') = Inr (s_toiletWallTileM2PerCarton st)
   \<and> getCoverageRate st (JStr ''Kitchen Wall'') = Inr (s_kitchenWallTileM2PerCarton st)
   \<and> getCoverageRate st (JStr ''Passage'') = Inr (s_floorTileM2PerCarton st)"
  by (simp add: coverage_defs)

section \<open>Rounding to two decimals\<close>



text \<open>A number of hundredths is its own rounding.\<close>

lemma round2_hundredths: "round2 (of_int k / 100) = of_int k / 100"
proof -
  have 1: "\<lfloor>of_int k + (1 / 2 :: real)\<rfloor> = k" by linarith
  have 2: "\<lfloor>- of_int k + (1 / 2 :: real)\<rfloor> = - k" by linarith
  show ?thesis by (simp add: round2_def 1 2)
qed

section \<open>From cartons to area and back\<close>










section \<open>The wastage toggle\<close>























section \<open>The unit price under edits\<close>

lemma getCoverageRate_returns:
  "category_string c = Inr s \<Longrightarrow> \<exists>rate. getCoverageRate st c = Inr rate"
  by (simp add: getCoverageRate_def bind_err_def Let_def)

lemma set_field_unitPrice:
  "field \<noteq> UnitPrice \<Longrightarrow> t_unitPrice (set_field field v t) = t_unitPrice t"
  by (cases field) simp_all

text \<open>No branch of the handler assigns the unit price, unless the edited field is the price.\<close>

lemma body_unitPrice:
  assumes "handleTileChange_body ar st t field v = Inr t'" and "field \<noteq> UnitPrice"
  shows "t_unitPrice t' = t_unitPrice t"
  using assms
  by (cases field)
     (auto simp: handleTileChange_body_def bind_err_def Let_def split: sum.splits if_splits)

lemma handleTileChange_unitPrice:
  assumes i: "i < length tiles" and t: "tiles ! i = Some t" and f: "field \<noteq> UnitPrice"
  shows "\<exists>t'. tiles_after ar st tiles i field v ! i = Some t' \<and> t_unitPrice t' = t_unitPrice t"
proof (cases "handleTileChange_body ar st t field v")
  case (Inl e)
  then have "tiles_after ar st tiles i field v = tiles"
    by (simp add: tiles_after_def handleTileChange_at [OF i t] bind_err_def)
  with t show ?thesis by simp
next
  case (Inr t')
  then have "tiles_after ar st tiles i field v = tiles[i := Some t']"
    by (simp add: tiles_after_def handleTileChange_at [OF i t] bind_err_def)
  with i body_unitPrice [OF Inr f] show ?thesis by simp
qed

lemma handleTileChange_returns:
  assumes i: "i < length tiles" and t: "tiles ! i = Some t" and f: "field \<noteq> UnitPrice"
    and c: "category_string (if field = Category then v else t_category t) = Inr s"
  shows "\<exists>t'. handleTileChange ar st tiles i field v = Inr (tiles[i := Some t'])
            \<and> t_unitPrice t' = t_unitPrice t"
proof -
  from getCoverageRate_returns [OF c] obtain rate
    where "getCoverageRate st (if field = Category then v else t_category t) = Inr rate"
    by blast
  then have "\<exists>t'. handleTileChange_body ar st t field v = Inr t'"
    by (simp add: handleTileChange_body_def bind_err_def Let_def)
  then obtain t' where b: "handleTileChange_body ar st t field v = Inr t'" by (elim exE)
  then have "handleTileChange ar st tiles i field v = Inr (tiles[i := Some t'])"
    by (simp add: handleTileChange_at [OF i t] bind_err_def)
  with body_unitPrice [OF b f] show ?thesis by blast
qed

text \<open>
  Claim C6. No code of the repository overwrites a unit price that a line carries: the
  service returns the tile lines of the model's answer as they are (the precedence of an
  explicit price over the size rules is an instruction of the prompt, not code), and in
  the editor an edit of sqm, cartons, category, size, group, tile type or the wastage
  toggle leaves the unit price of the line as it was, whatever the size rules of the
  settings are and also when the edit throws; with a category that is a string the edit
  does not throw.
\<close>

theorem unitPrice_never_overwritten:
  assumes "i < length tiles" and "tiles ! i = Some t" and "field \<noteq> UnitPrice"
  shows "(\<exists>t'. tiles_after ar st tiles i field v ! i = Some t' \<and> t_unitPrice t' = t_unitPrice t)
         \<and> (\<forall>s. category_string (if field = Category then v else t_category t) = Inr s \<longrightarrow>
              (\<exists>t'. handleTileChange ar st tiles i field v = Inr (tiles[i := Some t'])
                    \<and> t_unitPrice t' = t_unitPrice t))
         \<and> d_tiles (inject_visibility_defaults st parsedData) = d_tiles parsedData"
proof (intro conjI allI impI)
  show "\<exists>t'. tiles_after ar st tiles i field v ! i = Some t' \<and> t_unitPrice t' = t_unitPrice t"
    using assms by (rule handleTileChange_unitPrice)
  show "d_tiles (inject_visibility_defaults st parsedData) = d_tiles parsedData"
    by (simp add: inject_visibility_defaults_def)
next
  fix s
  assume "category_string (if field = Category then v else t_category t) = Inr s"
  with assms
  show "\<exists>t'. handleTileChange ar st tiles i field v = Inr (tiles[i := Some t'])
             \<and> t_unitPrice t' = t_unitPrice t"
    by (rule handleTileChange_returns)
qed

text \<open>
  A line priced 9999 whose size is set to 60x60, for which the default settings have the
  size rule of 6500: the line keeps 9999.
\<close>

theorem unitPrice_never_overwritten_witness:
  "0 < length [Some edited_tile] \<and> [Some edited_tile] ! 0 = Some edited_tile
   \<and> Size \<noteq> UnitPrice
   \<and> t_unitPrice edited_tile = JNum (Fin 9999)
   \<and> (''60x60'', Fin 6500) \<in> set (s_tilePricesBySize (settings_object Binary64 DEFAULT_SETTINGS))
   \<and> category_string (if Size = Category then JStr ''60x60'' else t_category edited_tile)
       = Inr ''Kitchen Wall''
   \<and> (\<exists>t'. handleTileChange Binary64 (settings_object Binary64 DEFAULT_SETTINGS) [Some edited_tile] 0 Size
              (JStr ''60x60'') = Inr ([Some edited_tile][0 := Some t'])
            \<and> t_unitPrice t' = JNum (Fin 9999))
   \<and> handleTileChange Binary64 (settings_object Binary64 DEFAULT_SETTINGS) [Some edited_tile] 0 Size
        (JStr ''60x60'') = Inr [Some (edited_tile\<lparr>t_size := JStr ''60x60''\<rparr>)]"
proof -
  let ?S = "settings_object Binary64 DEFAULT_SETTINGS"
  have p: "0 < length [Some edited_tile]" "[Some edited_tile] ! 0 = Some edited_tile"
    "Size \<noteq> UnitPrice"
    by simp_all
  have price: "t_unitPrice edited_tile = JNum (Fin 9999)" by (simp add: edited_tile_def)
  have rule: "(''60x60'', Fin 6500) \<in> set (s_tilePricesBySize ?S)"
    by (simp add: settings_object_def DEFAULT_SETTINGS_def binary64_numeral)
  have cat: "category_string (if Size = Category then JStr ''60x60'' else t_category edited_tile)
               = Inr ''Kitchen Wall''"
    by (simp add: category_string_def edited_tile_def)
  have rate: "getCoverageRate ?S (t_category edited_tile) = Inr (Fin 1.5)"
    by (simp add: edited_tile_def coverage_defs settings_object_def DEFAULT_SETTINGS_def
        binary64_three_halves)
  from unitPrice_never_overwritten
      [OF p, where ar = Binary64 and st = ?S and v = "JStr ''60x60''", THEN conjunct2,
      THEN conjunct1, THEN spec, THEN mp, OF cat]
  have 1: "\<exists>t'. handleTileChange Binary64 ?S [Some edited_tile] 0 Size (JStr ''60x60'')
                  = Inr ([Some edited_tile][0 := Some t'])
                \<and> t_unitPrice t' = JNum (Fin 9999)"
    unfolding price .
  have 2: "handleTileChange Binary64 ?S [Some edited_tile] 0 Size (JStr ''60x60'')
             = Inr [Some (edited_tile\<lparr>t_size := JStr ''60x60''\<rparr>)]"
    using rate by (simp add: handleTileChange_def handleTileChange_body_def bind_err_def)
  from p price rule cat 1 2 show ?thesis by (intro conjI)
qed

end
